theory Spec2Isabelle
  imports Complex_Main
begin

section \<open>The record store\<close>

text \<open>
  Both stages keep one Firestore document per upload in the collection \<open>captions\<close>.
  A document is a Python dict from field names to values; the values this program
  writes are strings and timestamps. A missing field is \<open>None\<close>, which is what
  \<open>data.get(k)\<close> returns in the source. A character is a Unicode code point below 256;
  text with other code points is outside this model. A timestamp is the number of
  seconds its \<open>timestamp()\<close> method returns, and the difference of two timestamps is
  taken as exact.
\<close>

datatype fval = Str string | Time real

type_synonym doc = "string \<rightharpoonup> fval"

type_synonym store = "string \<rightharpoonup> doc"

text \<open>Truth value of a stored value in a Python condition (\<open>if locked_at:\<close>, \<open>not draft\<close>):
  the empty string is false, a datetime is always true.\<close>

fun truthy :: "fval \<Rightarrow> bool" where
  "truthy (Str s) = (s \<noteq> [])"
| "truthy (Time t) = True"

text \<open>An exception: \<open>RuntimeError\<close> (or a subclass of it) or any other class, with the
  text \<open>str(e)\<close>.\<close>

datatype exn = RuntimeError string | OtherError string

fun exn_text :: "exn \<Rightarrow> string" where
  "exn_text (RuntimeError m) = m"
| "exn_text (OtherError m) = m"

text \<open>
  How a call to Firestore ends: it returns and its writes are applied; it raises and
  nothing was written; or its writes were applied and the caller still does not get the
  answer (the response to the commit is lost and the call raises, or the transaction is
  run again and now finds what it wrote).
\<close>

datatype fs_outcome = Applied | Refused | Lost

text \<open>
  What one call cannot decide by itself is read from the \<open>world\<close>: the token drawn by
  \<open>uuid.uuid4()\<close>; the clock \<open>datetime.utcnow()\<close>, once as the time it denotes
  (\<open>utcnow\<close>, what Firestore stores for it) and once as the number \<open>now.timestamp()\<close>
  returns, which reads the naive value as local time and is the same number only when
  the process runs in UTC; the value the server substitutes for \<open>SERVER_TIMESTAMP\<close>;
  how the Firestore call ends; and, for the Publisher, whether \<open>_get_db()\<close> returns
  the client or raises while creating it. The Composer creates its client when the
  module is loaded, so its functions do not read \<open>get_db\<close>.
\<close>

record world =
  uuid4 :: string
  utcnow :: real
  now_timestamp :: real
  server_timestamp :: real
  firestore :: fs_outcome
  get_db :: "exn option"

text \<open>
  \<open>db.collection(COLLECTION).document(doc_id)\<close> joins the collection name and the id
  with \<open>/\<close>, splits the result at every \<open>/\<close> and raises \<open>ValueError\<close> when the number
  of segments is odd: a document path has an even number of segments. With the one
  segment \<open>captions\<close> in front, that is an id with an odd number of \<open>/\<close>.
\<close>

definition addressable :: "string \<Rightarrow> bool" where
  "addressable doc_id = even (count_list doc_id (CHR ''/''))"

definition document_error :: exn where
  "document_error = OtherError ''A document must have an even number of path elements''"

text \<open>One entry of the dict given to \<open>set\<close> or \<open>update\<close>: a value, the sentinel
  \<open>SERVER_TIMESTAMP\<close>, or the sentinel \<open>DELETE_FIELD\<close>.\<close>

datatype fupd = Put fval | SERVER_TIMESTAMP | DELETE_FIELD

fun apply_fupd :: "real \<Rightarrow> doc \<Rightarrow> string \<times> fupd \<Rightarrow> doc" where
  "apply_fupd srv d (k, Put v) = d(k \<mapsto> v)"
| "apply_fupd srv d (k, SERVER_TIMESTAMP) = d(k \<mapsto> Time srv)"
| "apply_fupd srv d (k, DELETE_FIELD) = d(k := None)"

definition update_fields :: "real \<Rightarrow> doc \<Rightarrow> (string \<times> fupd) list \<Rightarrow> doc" where
  "update_fields srv d ups = foldl (apply_fupd srv) d ups"

text \<open>
  A transaction (or a plain write) inside \<open>try ... except Exception\<close>: \<open>body\<close> is
  what the transaction function returns together with the store after its writes,
  \<open>failed\<close> is what the \<open>except\<close> branch returns.
\<close>

definition transact :: "fs_outcome \<Rightarrow> 'a \<Rightarrow> store \<Rightarrow> 'a \<times> store \<Rightarrow> 'a \<times> store" where
  "transact outcome failed st body =
     (case outcome of
        Applied \<Rightarrow> body
      | Refused \<Rightarrow> (failed, st)
      | Lost \<Rightarrow> (failed, snd body))"

definition LOCK_TTL_SECONDS :: real where
  "LOCK_TTL_SECONDS = 120"

definition TERMINAL_STATUSES :: "fval set" where
  "TERMINAL_STATUSES = {Str ''POSTED'', Str ''FAILED''}"

subsection \<open>Composer: claim and status update\<close>

text \<open>The transaction function \<open>_claim\<close>: the returned flag and the store after it.\<close>

definition claim_txn :: "world \<Rightarrow> store \<Rightarrow> string \<Rightarrow> string \<Rightarrow> string \<Rightarrow> bool \<times> store" where
  "claim_txn w st doc_id bucket filename =
     (case st doc_id of
        Some d \<Rightarrow> (False, st)
      | None \<Rightarrow>
          (True, st(doc_id \<mapsto> update_fields (server_timestamp w) Map.empty
             [(''doc_id'', Put (Str doc_id)),
              (''bucket'', Put (Str bucket)),
              (''filename'', Put (Str filename)),
              (''status'', Put (Str ''RECEIVED'')),
              (''created_at'', SERVER_TIMESTAMP)])))"

text \<open>
  \<open>claim_document\<close>. The document reference is built before the \<open>try\<close>, so its
  \<open>ValueError\<close> reaches the caller (\<open>Inl\<close>); an exception of the transaction is caught
  and becomes \<open>False\<close>.
\<close>

definition claim_document ::
  "world \<Rightarrow> store \<Rightarrow> string \<Rightarrow> string \<Rightarrow> string \<Rightarrow> exn + bool \<times> store" where
  "claim_document w st doc_id bucket filename =
     (if \<not> addressable doc_id then Inl document_error
      else Inr (transact (firestore w) False st (claim_txn w st doc_id bucket filename)))"

text \<open>The keyword arguments \<open>process_upload\<close> passes to \<open>update_status\<close> as
  \<open>extra_fields\<close>.\<close>

datatype extra_field =
    FailureReason string
  | Draft string
  | ImageUrl string
  | SignedUrlExpires real

fun extra_entry :: "extra_field \<Rightarrow> string \<times> fupd" where
  "extra_entry (FailureReason r) = (''failure_reason'', Put (Str r))"
| "extra_entry (Draft d) = (''draft'', Put (Str d))"
| "extra_entry (ImageUrl u) = (''image_url'', Put (Str u))"
| "extra_entry (SignedUrlExpires t) = (''signed_url_expires'', Put (Time t))"

text \<open>
  \<open>update_status\<close>: everything is inside the \<open>try\<close>, and every exception is logged and
  swallowed. \<open>update\<close> raises on a missing document and writes nothing.
\<close>

definition update_status ::
  "world \<Rightarrow> store \<Rightarrow> string \<Rightarrow> string \<Rightarrow> extra_field list \<Rightarrow> store" where
  "update_status w st doc_id status extra_fields =
     (if \<not> addressable doc_id then st
      else case st doc_id of
        None \<Rightarrow> st
      | Some d \<Rightarrow>
          snd (transact (firestore w) () st
                 ((), st(doc_id \<mapsto> update_fields (server_timestamp w) d
                        ([(''status'', Put (Str status)), (''updated_at'', SERVER_TIMESTAMP)]
                         @ map extra_entry extra_fields)))))"

subsection \<open>Publisher: the posting lock\<close>

text \<open>
  The transaction function \<open>_acquire\<close>. \<open>None\<close> stands for an exception inside it:
  \<open>now - locked_at\<close> raises when \<open>locked_at\<close> is a non-empty string, which has no
  \<open>timestamp\<close> attribute and cannot be subtracted from a datetime. A stored timestamp
  has the attribute, so its age is \<open>now.timestamp() - locked_at.timestamp()\<close>.
\<close>

definition acquire_txn :: "world \<Rightarrow> store \<Rightarrow> string \<Rightarrow> (string option \<times> store) option" where
  "acquire_txn w st doc_id =
     (case st doc_id of
        None \<Rightarrow> Some (None, st)
      | Some data \<Rightarrow>
          let status = data ''status'';
              claim_it =
                (if status \<noteq> Some (Str ''QUEUED'') \<and> status \<noteq> Some (Str ''POSTING'')
                 then (None, st)
                 else (Some (uuid4 w),
                       st(doc_id \<mapsto> update_fields (server_timestamp w) data
                         [(''status'', Put (Str ''POSTING'')),
                          (''lock_token'', Put (Str (uuid4 w))),
                          (''locked_at'', Put (Time (utcnow w))),
                          (''updated_at'', SERVER_TIMESTAMP)])))
          in if (case status of None \<Rightarrow> False | Some s \<Rightarrow> s \<in> TERMINAL_STATUSES)
             then Some (None, st)
             else if status = Some (Str ''POSTING'') then
               (case data ''locked_at'' of
                  None \<Rightarrow> Some claim_it
                | Some locked_at \<Rightarrow>
                    if truthy locked_at then
                      (case locked_at of
                         Time t \<Rightarrow>
                           if now_timestamp w - t < LOCK_TTL_SECONDS then Some (None, st)
                           else Some claim_it
                       | Str s \<Rightarrow> None)
                    else Some claim_it)
             else Some claim_it)"

text \<open>The \<open>try\<close> statement of \<open>acquire_posting_lock\<close>: the transaction, and \<open>None\<close>
  for every exception.\<close>

definition try_acquire :: "world \<Rightarrow> store \<Rightarrow> string \<Rightarrow> string option \<times> store" where
  "try_acquire w st doc_id =
     (case acquire_txn w st doc_id of
        None \<Rightarrow> (None, st)
      | Some body \<Rightarrow> transact (firestore w) None st body)"

text \<open>
  \<open>acquire_posting_lock\<close>: \<open>_get_db()\<close> and the document reference come before the
  \<open>try\<close>, so their exceptions reach the caller.
\<close>

definition acquire_posting_lock ::
  "world \<Rightarrow> store \<Rightarrow> string \<Rightarrow> exn + string option \<times> store" where
  "acquire_posting_lock w st doc_id =
     (case get_db w of
        Some e \<Rightarrow> Inl e
      | None \<Rightarrow>
          if \<not> addressable doc_id then Inl document_error
          else Inr (try_acquire w st doc_id))"

text \<open>The transaction functions \<open>_release\<close> of the two release operations.\<close>

definition release_success_txn ::
  "world \<Rightarrow> store \<Rightarrow> string \<Rightarrow> string \<Rightarrow> string \<Rightarrow> bool \<times> store" where
  "release_success_txn w st doc_id lock_token post_name =
     (case st doc_id of
        None \<Rightarrow> (False, st)
      | Some data \<Rightarrow>
          if data ''lock_token'' \<noteq> Some (Str lock_token) then (False, st)
          else (True, st(doc_id \<mapsto> update_fields (server_timestamp w) data
                  [(''status'', Put (Str ''POSTED'')),
                   (''gbp_post_name'', Put (Str post_name)),
                   (''posted_at'', SERVER_TIMESTAMP),
                   (''lock_token'', DELETE_FIELD),
                   (''locked_at'', DELETE_FIELD),
                   (''updated_at'', SERVER_TIMESTAMP)])))"

definition release_failure_txn ::
  "world \<Rightarrow> store \<Rightarrow> string \<Rightarrow> string \<Rightarrow> string \<Rightarrow> bool \<times> store" where
  "release_failure_txn w st doc_id lock_token reason =
     (case st doc_id of
        None \<Rightarrow> (False, st)
      | Some data \<Rightarrow>
          if data ''lock_token'' \<noteq> Some (Str lock_token) then (False, st)
          else (True, st(doc_id \<mapsto> update_fields (server_timestamp w) data
                  [(''status'', Put (Str ''FAILED'')),
                   (''failure_reason'', Put (Str reason)),
                   (''lock_token'', DELETE_FIELD),
                   (''locked_at'', DELETE_FIELD),
                   (''updated_at'', SERVER_TIMESTAMP)])))"

text \<open>The \<open>try\<close> statements of the two release operations, and the operations.\<close>

definition try_release_success ::
  "world \<Rightarrow> store \<Rightarrow> string \<Rightarrow> string \<Rightarrow> string \<Rightarrow> bool \<times> store" where
  "try_release_success w st doc_id lock_token post_name =
     transact (firestore w) False st (release_success_txn w st doc_id lock_token post_name)"

definition try_release_failure ::
  "world \<Rightarrow> store \<Rightarrow> string \<Rightarrow> string \<Rightarrow> string \<Rightarrow> bool \<times> store" where
  "try_release_failure w st doc_id lock_token reason =
     transact (firestore w) False st (release_failure_txn w st doc_id lock_token reason)"

definition release_lock_success ::
  "world \<Rightarrow> store \<Rightarrow> string \<Rightarrow> string \<Rightarrow> string \<Rightarrow> exn + bool \<times> store" where
  "release_lock_success w st doc_id lock_token post_name =
     (case get_db w of
        Some e \<Rightarrow> Inl e
      | None \<Rightarrow>
          if \<not> addressable doc_id then Inl document_error
          else Inr (try_release_success w st doc_id lock_token post_name))"

definition release_lock_failure ::
  "world \<Rightarrow> store \<Rightarrow> string \<Rightarrow> string \<Rightarrow> string \<Rightarrow> exn + bool \<times> store" where
  "release_lock_failure w st doc_id lock_token reason =
     (case get_db w of
        Some e \<Rightarrow> Inl e
      | None \<Rightarrow>
          if \<not> addressable doc_id then Inl document_error
          else Inr (try_release_failure w st doc_id lock_token reason))"


section \<open>Composer: validation and the generation loop\<close>

subsection \<open>Strings\<close>

text \<open>
  \<open>is_space\<close> is \<open>str.isspace\<close> on one character, which is also what \<open>\s\<close> matches;
  \<open>is_digit\<close> is what \<open>\d\<close> matches; \<open>str_strip\<close> is \<open>str.strip()\<close>; \<open>str_split\<close>
  is \<open>str.split()\<close> with no argument (runs of whitespace separate the words, there is
  no empty word); \<open>str_lower\<close> is \<open>str.lower()\<close>; \<open>str_nat\<close> is the decimal text an
  f-string gives a non-negative integer.
\<close>

definition is_space :: "char \<Rightarrow> bool" where
  "is_space c = (c \<in> {CHR 0x09, CHR 0x0A, CHR 0x0B, CHR 0x0C, CHR 0x0D,
                        CHR 0x1C, CHR 0x1D, CHR 0x1E, CHR 0x1F, CHR 0x20,
                        CHR 0x85, CHR 0xA0})"

definition is_digit :: "char \<Rightarrow> bool" where
  "is_digit c = (c \<in> set ''0123456789'')"

definition str_strip :: "string \<Rightarrow> string" where
  "str_strip s = rev (dropWhile is_space (rev (dropWhile is_space s)))"

fun words_from :: "string \<Rightarrow> string \<Rightarrow> string list" where
  "words_from cur [] = (if cur = [] then [] else [cur])"
| "words_from cur (c # cs) =
     (if is_space c then (if cur = [] then words_from [] cs else cur # words_from [] cs)
      else words_from (cur @ [c]) cs)"

definition str_split :: "string \<Rightarrow> string list" where
  "str_split s = words_from [] s"

definition lower_char :: "char \<Rightarrow> char" where
  "lower_char c =
     (let n = (of_char c :: nat)
      in if (65 \<le> n \<and> n \<le> 90) \<or> (192 \<le> n \<and> n \<le> 214) \<or> (216 \<le> n \<and> n \<le> 222)
         then char_of (n + 32) else c)"

definition str_lower :: "string \<Rightarrow> string" where
  "str_lower s = map lower_char s"

fun str_nat :: "nat \<Rightarrow> string" where
  "str_nat n =
     (if n < 10 then [''0123456789'' ! n]
      else str_nat (n div 10) @ [''0123456789'' ! (n mod 10)])"

declare str_nat.simps [simp del]

definition starts_with :: "string \<Rightarrow> string \<Rightarrow> bool" where
  "starts_with s p = (take (length p) s = p)"

text \<open>\<open>marker in s\<close>: the marker occurs in the string.\<close>

fun contains :: "string \<Rightarrow> string \<Rightarrow> bool" where
  "contains [] m = (m = [])"
| "contains (c # cs) m = (starts_with (c # cs) m \<or> contains cs m)"

fun str_join :: "string \<Rightarrow> string list \<Rightarrow> string" where
  "str_join sep [] = []"
| "str_join sep [x] = x"
| "str_join sep (x # y # ys) = x @ sep @ str_join sep (y # ys)"

text \<open>
  The value \<open>json.loads\<close> returns. An object is given by its members in the order of
  the text; \<open>json_get\<close> is \<open>dict.get\<close> on the dict made of them, in which the last
  of several members with one name stays.
\<close>

datatype json = JNull | JBool bool | JNum real | JStr string | JArr "json list"
  | JObj "(string \<times> json) list"

definition json_get :: "(string \<times> json) list \<Rightarrow> string \<Rightarrow> json option" where
  "json_get kvs k = map_of (rev kvs) k"

fun json_truthy :: "json \<Rightarrow> bool" where
  "json_truthy JNull = False"
| "json_truthy (JBool b) = b"
| "json_truthy (JNum x) = (x \<noteq> 0)"
| "json_truthy (JStr s) = (s \<noteq> [])"
| "json_truthy (JArr xs) = (xs \<noteq> [])"
| "json_truthy (JObj kvs) = (kvs \<noteq> [])"

subsection \<open>The price pattern\<close>

text \<open>
  \<open>price_pattern.search\<close> for the regular expression of \<open>sentinel_check\<close>,
  \<^verbatim>\<open>\$\s*\d+|\d+\s*%|percent\s+off|discount|sale\s+price|free\s+delivery|promo|coupon\<close>:
  the leftmost position at which an alternative matches, the alternatives tried in the
  order written, each quantifier greedy. Whitespace, digits and the literal characters
  that follow them are disjoint, so a greedy run never has to give a character back.
  The result is \<open>price_match.group()\<close>.
\<close>

definition match_dollar :: "string \<Rightarrow> string option" where
  "match_dollar s =
     (case s of
        [] \<Rightarrow> None
      | c # r \<Rightarrow>
          if c = CHR ''$'' \<and> takeWhile is_digit (dropWhile is_space r) \<noteq> []
          then Some (c # takeWhile is_space r @ takeWhile is_digit (dropWhile is_space r))
          else None)"

definition match_percent :: "string \<Rightarrow> string option" where
  "match_percent s =
     (let ds = takeWhile is_digit s; r = dropWhile is_digit s
      in if ds \<noteq> [] \<and> starts_with (dropWhile is_space r) ''%''
         then Some (ds @ takeWhile is_space r @ ''%'')
         else None)"

definition match_lit :: "string \<Rightarrow> string \<Rightarrow> string option" where
  "match_lit a s = (if starts_with s a then Some a else None)"

definition match_lit_ws_lit :: "string \<Rightarrow> string \<Rightarrow> string \<Rightarrow> string option" where
  "match_lit_ws_lit a b s =
     (let r = drop (length a) s
      in if starts_with s a \<and> takeWhile is_space r \<noteq> [] \<and> starts_with (dropWhile is_space r) b
         then Some (a @ takeWhile is_space r @ b)
         else None)"

fun first_match :: "(string \<Rightarrow> string option) list \<Rightarrow> string \<Rightarrow> string option" where
  "first_match [] s = None"
| "first_match (m # ms) s = (case m s of Some g \<Rightarrow> Some g | None \<Rightarrow> first_match ms s)"

definition price_pattern_match :: "string \<Rightarrow> string option" where
  "price_pattern_match =
     first_match
       [match_dollar, match_percent, match_lit_ws_lit ''percent'' ''off'', match_lit ''discount'',
        match_lit_ws_lit ''sale'' ''price'', match_lit_ws_lit ''free'' ''delivery'',
        match_lit ''promo'', match_lit ''coupon'']"

fun price_pattern_search :: "string \<Rightarrow> string option" where
  "price_pattern_search [] = price_pattern_match []"
| "price_pattern_search (c # cs) =
     (case price_pattern_match (c # cs) of
        Some g \<Rightarrow> Some g
      | None \<Rightarrow> price_pattern_search cs)"

subsection \<open>The sentinel\<close>

text \<open>
  \<open>sentinel_check\<close> returns \<open>(passed, reason)\<close>; \<open>None\<close> is an exception
  (\<open>parsed\<close> is not a dict and has no \<open>get\<close>, or the caption is not a string and
  has no \<open>strip\<close>).
\<close>

definition sentinel_check :: "json \<Rightarrow> (bool \<times> string) option" where
  "sentinel_check parsed =
     (case parsed of
        JObj kvs \<Rightarrow>
          (case (case json_get kvs ''caption'' of None \<Rightarrow> JStr [] | Some v \<Rightarrow> v) of
             JStr raw_caption \<Rightarrow>
               let caption = str_strip raw_caption;
                   contains_price = (case json_get kvs ''contains_price'' of
                                       None \<Rightarrow> JBool False | Some v \<Rightarrow> v);
                   actual_words = length (str_split caption)
               in if caption = [] then Some (False, ''EMPTY_CAPTION'')
                  else if json_truthy contains_price then Some (False, ''PRICE_SELF_REPORTED'')
                  else if actual_words > 40
                    then Some (False, ''TOO_LONG ('' @ str_nat actual_words @ '' words)'')
                  else if actual_words < 5
                    then Some (False, ''TOO_SHORT ('' @ str_nat actual_words @ '' words)'')
                  else (case price_pattern_search (str_lower caption) of
                          Some g \<Rightarrow> Some (False, ''PRICE_DETECTED: '' @ [CHR 0x27] @ g @ [CHR 0x27])
                        | None \<Rightarrow> Some (True, ''APPROVED''))
           | _ \<Rightarrow> None)
      | _ \<Rightarrow> None)"

subsection \<open>The ReAct loop\<close>

















section \<open>Publisher: posting and the handler\<close>

definition permanent_markers :: "string list" where
  "permanent_markers =
     [''invalid_grant'', ''unauthorized'', ''permission_denied'', ''not_found'',
      ''invalid_argument'', ''no refresh_token'']"

definition classify_error :: "exn \<Rightarrow> string" where
  "classify_error error =
     (if \<exists>marker \<in> set permanent_markers. contains (str_lower (exn_text error)) marker
      then ''PERMANENT'' else ''TRANSIENT'')"

text \<open>
  What \<open>post_to_gbp\<close> meets outside this program: the two environment variables,
  \<open>get_credentials\<close> (it returns, or raises the given exception), and the HTTP call.
  \<open>HTTP_Raises\<close> is any exception other than a timeout or a connection error, raised
  by the call or by decoding the body of a 200 response; a response carries its status
  code, its text and, for a 200, the \<open>name\<close> member of its JSON body when there is one
  (a string).
\<close>

datatype http_outcome =
    HTTP_Timeout
  | HTTP_ConnectionError string
  | HTTP_Raises exn
  | HTTP_Response int string "string option"

record gbp_env =
  PROJECT_ID :: "string option"
  LOCATION_ID :: "string option"
  get_credentials :: "exn option"
  http_post :: http_outcome

definition validate_config :: "gbp_env \<Rightarrow> string list" where
  "validate_config g =
     (if PROJECT_ID g = None \<or> PROJECT_ID g = Some [] then [''GCP_PROJECT env var not set'']
      else []) @
     (case LOCATION_ID g of
        None \<Rightarrow> [''GBP_LOCATION_ID env var not set'']
      | Some loc \<Rightarrow>
          if loc = [] then [''GBP_LOCATION_ID env var not set'']
          else if \<not> starts_with loc ''accounts/''
            then [''GBP_LOCATION_ID must be '' @ [CHR 0x27] @ ''accounts/X/locations/Y'' @
                  [CHR 0x27] @ '', got: '' @ loc]
          else [])"

text \<open>The dict \<open>post_to_gbp\<close> returns: success with the post name, or failure with the
  error text, the status code and the \<open>retryable\<close> flag.\<close>

datatype post_result = PostOk string | PostFailed string int bool

text \<open>
  \<open>post_to_gbp\<close>; \<open>Inl\<close> is an exception that leaves the function. A draft that is
  not a string cannot be sliced for the log line, and an image URL that is not a string
  cannot be serialised into the request body: both raise a \<open>TypeError\<close>.
\<close>

definition post_to_gbp :: "gbp_env \<Rightarrow> fval \<Rightarrow> fval \<Rightarrow> exn + post_result" where
  "post_to_gbp g draft image_url =
     (if validate_config g \<noteq> []
      then Inr (PostFailed (''Config errors: '' @ str_join ''; '' (validate_config g)) 0 False)
      else case get_credentials g of
        Some e \<Rightarrow> Inl e
      | None \<Rightarrow>
          (case draft of
             Time t \<Rightarrow>
               Inl (OtherError
                 ([CHR 0x27] @ ''DatetimeWithNanoseconds'' @ [CHR 0x27] @
                  '' object is not subscriptable''))
           | Str d \<Rightarrow>
               (case image_url of
                  Time t \<Rightarrow>
                    Inl (OtherError
                      ''Object of type DatetimeWithNanoseconds is not JSON serializable'')
                | Str u \<Rightarrow>
                    (case http_post g of
                       HTTP_Timeout \<Rightarrow>
                         Inr (PostFailed ''GBP API request timed out (60s)'' 0 True)
                     | HTTP_ConnectionError e \<Rightarrow>
                         Inr (PostFailed (''Connection error: '' @ e) 0 True)
                     | HTTP_Raises e \<Rightarrow> Inl e
                     | HTTP_Response status_code body name \<Rightarrow>
                         if status_code = 200
                         then Inr (PostOk (case name of None \<Rightarrow> ''unknown'' | Some n \<Rightarrow> n))
                         else Inr (PostFailed (take 500 body) status_code
                                     (status_code \<in> {429, 500, 502, 503, 504}))))))"

text \<open>The dead-letter topic, as the list of messages handed to its publisher.\<close>

record dlq_message =
  dlq_doc_id :: string
  dlq_filename :: string
  dlq_reason :: string
  dlq_source :: string
  dlq_timestamp :: real

text \<open>
  What one run of the handler meets: whether \<open>_get_db()\<close> returns the client, whether
  the first read of the document goes through, the worlds of the lock acquisition and
  of the release, the \<open>DRY_RUN\<close> switch, the posting environment, and whether handing
  a message to the dead-letter publisher goes through (with the clock read for its
  timestamp).
\<close>

record poster_env =
  handler_get_db :: "exn option"
  snapshot_ok :: bool
  acquire_world :: world
  release_world :: world
  DRY_RUN :: bool
  gbp :: gbp_env
  dlq_ok :: bool
  dlq_now :: real

text \<open>\<open>send_to_dlq\<close>: every exception is logged and swallowed, and then nothing is
  published; \<open>json.dumps\<close> raises on a filename that is not a string.\<close>

definition send_to_dlq ::
  "poster_env \<Rightarrow> dlq_message list \<Rightarrow> string \<Rightarrow> fval \<Rightarrow> string \<Rightarrow> dlq_message list" where
  "send_to_dlq env dlq doc_id filename reason =
     (case filename of
        Time t \<Rightarrow> dlq
      | Str f \<Rightarrow>
          if dlq_ok env
          then dlq @ [\<lparr>dlq_doc_id = doc_id, dlq_filename = f, dlq_reason = reason,
                       dlq_source = ''bakers-poster-v1'', dlq_timestamp = dlq_now env\<rparr>]
          else dlq)"

text \<open>
  The Pub/Sub envelope, a dict with a \<open>message\<close> dict: no data, data that does not
  decode (base64, then UTF-8), or the decoded and stripped text. The handler
  acknowledges the message by returning and asks for redelivery by raising.
\<close>

datatype envelope = NoData | Undecodable | Decoded string

datatype delivery = Ack | Redeliver

text \<open>
  \<open>process_post_queue\<close>. The client and the document reference are obtained at the
  start, outside every \<open>try\<close>; once they are there, the same two steps inside the
  lock operations cannot raise, and the handler runs the \<open>try\<close> statements of those
  operations.
\<close>

definition process_post_queue ::
  "poster_env \<Rightarrow> store \<Rightarrow> dlq_message list \<Rightarrow> envelope \<Rightarrow> delivery \<times> store \<times> dlq_message list" where
  "process_post_queue env st dlq cloud_event =
     (case cloud_event of
        NoData \<Rightarrow> (Ack, st, dlq)
      | Undecodable \<Rightarrow> (Ack, st, dlq)
      | Decoded doc_id \<Rightarrow>
          if doc_id = [] then (Ack, st, dlq)
          else if handler_get_db env \<noteq> None \<or> \<not> addressable doc_id \<or> \<not> snapshot_ok env
          then (Redeliver, st, dlq)
          else
           (case st doc_id of
              None \<Rightarrow> (Ack, st, dlq)
            | Some doc_data \<Rightarrow>
              let draft = (case doc_data ''draft'' of None \<Rightarrow> Str [] | Some v \<Rightarrow> v);
                  image_url = (case doc_data ''image_url'' of None \<Rightarrow> Str [] | Some v \<Rightarrow> v);
                  filename = (case doc_data ''filename'' of None \<Rightarrow> Str ''unknown'' | Some v \<Rightarrow> v)
              in if \<not> truthy draft \<or> \<not> truthy image_url
                 then (Ack, st, send_to_dlq env dlq doc_id filename ''INCOMPLETE_DOCUMENT'')
                 else
                   (case try_acquire (acquire_world env) st doc_id of
                      (None, st1) \<Rightarrow> (Ack, st1, dlq)
                    | (Some lock_token, st1) \<Rightarrow>
                        if lock_token = [] then (Ack, st1, dlq)
                        else if DRY_RUN env then
                          (case draft of
                             Time t \<Rightarrow> (Redeliver, st1, dlq)
                           | Str d \<Rightarrow>
                               (Ack,
                                snd (try_release_success (release_world env) st1 doc_id
                                       lock_token ''DRY_RUN''),
                                dlq))
                        else
                          (case post_to_gbp (gbp env) draft image_url of
                             Inr (PostOk post_name) \<Rightarrow>
                               (Ack,
                                snd (try_release_success (release_world env) st1 doc_id
                                       lock_token post_name),
                                dlq)
                           | Inr (PostFailed error_msg status_code retryable) \<Rightarrow>
                               if retryable then (Redeliver, st1, dlq)
                               else
                                 (Ack,
                                  snd (try_release_failure (release_world env) st1 doc_id
                                         lock_token (''GBP_PERMANENT: '' @ error_msg)),
                                  send_to_dlq env dlq doc_id filename
                                    (''GBP_PERMANENT: '' @ error_msg))
                           | Inl (RuntimeError m) \<Rightarrow> (Redeliver, st1, dlq)
                           | Inl (OtherError m) \<Rightarrow>
                               if classify_error (OtherError m) = ''TRANSIENT''
                               then (Redeliver, st1, dlq)
                               else
                                 (Ack,
                                  snd (try_release_failure (release_world env) st1 doc_id
                                         lock_token (''EXCEPTION: '' @ m)),
                                  send_to_dlq env dlq doc_id filename (''EXCEPTION: '' @ m))))))"


section \<open>The pipeline as a transition system\<close>

text \<open>
  The state of the pipeline: the collection, for each document id the point the
  invocation of \<open>process_upload\<close> that won the claim has reached, and the ids
  \<open>process_upload\<close> has published to the topic that triggers \<open>process_post_queue\<close>.
  The points of \<open>process_upload\<close>: nobody has claimed the id; \<open>claim_document\<close> has
  returned true; the status update to \<open>GENERATING\<close> has run and control is inside the
  \<open>try\<close>; the update to \<open>QUEUED\<close> has run; the handler is done.
\<close>

datatype phase = Unclaimed | Claimed | InTry | Stored | Finished

record sys =
  store :: store
  phase :: "string \<Rightarrow> phase"
  pointers :: "string set"

definition init :: sys where
  "init = \<lparr>store = Map.empty, phase = (\<lambda>i. Unclaimed), pointers = {}\<rparr>"

text \<open>
  One step of either stage. For \<open>process_upload\<close>: the claim (won or lost), the
  update to \<open>GENERATING\<close>, and inside the \<open>try\<close> the update to \<open>FAILED\<close> when the
  loop gives no caption, the update to \<open>QUEUED\<close> with the draft and the signed URL,
  the publication of the pointer, and the \<open>except\<close> branch with its update to
  \<open>FAILED\<close>, entered from anywhere in the \<open>try\<close>, also when publishing raises. For
  \<open>process_post_queue\<close>, which runs only for a published pointer: the lock
  acquisition and the two releases, each with any world and any token.
\<close>

inductive step :: "sys \<Rightarrow> sys \<Rightarrow> bool" where
  upload_claim:
    "claim_document w (store s) i bucket filename = Inr (True, st') \<Longrightarrow>
     step s (s\<lparr>store := st', phase := (phase s)(i := Claimed)\<rparr>)"
| upload_duplicate:
    "claim_document w (store s) i bucket filename = Inr (False, st') \<Longrightarrow>
     step s (s\<lparr>store := st'\<rparr>)"
| upload_generating:
    "phase s i = Claimed \<Longrightarrow>
     step s (s\<lparr>store := update_status w (store s) i ''GENERATING'' [],
               phase := (phase s)(i := InTry)\<rparr>)"
| upload_blocked:
    "phase s i = InTry \<Longrightarrow>
     step s (s\<lparr>store := update_status w (store s) i ''FAILED''
                          [FailureReason ''SENTINEL_BLOCKED_ALL_ATTEMPTS''],
               phase := (phase s)(i := Finished)\<rparr>)"
| upload_queued:
    "phase s i = InTry \<Longrightarrow> caption \<noteq> [] \<Longrightarrow>
     step s (s\<lparr>store := update_status w (store s) i ''QUEUED''
                          [Draft caption, ImageUrl signed_url, SignedUrlExpires expires],
               phase := (phase s)(i := Stored)\<rparr>)"
| upload_published:
    "phase s i = Stored \<Longrightarrow>
     step s (s\<lparr>phase := (phase s)(i := Finished), pointers := insert i (pointers s)\<rparr>)"
| upload_exception:
    "phase s i = InTry \<or> phase s i = Stored \<Longrightarrow>
     step s (s\<lparr>store := update_status w (store s) i ''FAILED'' [FailureReason e],
               phase := (phase s)(i := Finished)\<rparr>)"
| poster_acquire:
    "i \<in> pointers s \<Longrightarrow>
     step s (s\<lparr>store := snd (try_acquire w (store s) i)\<rparr>)"
| poster_release_success:
    "i \<in> pointers s \<Longrightarrow>
     step s (s\<lparr>store := snd (try_release_success w (store s) i lock_token post_name)\<rparr>)"
| poster_release_failure:
    "i \<in> pointers s \<Longrightarrow>
     step s (s\<lparr>store := snd (try_release_failure w (store s) i lock_token reason)\<rparr>)"

inductive reachable :: "sys \<Rightarrow> bool" where
  reachable_init: "reachable init"
| reachable_step: "reachable s \<Longrightarrow> step s s' \<Longrightarrow> reachable s'"

text \<open>The lock fields are present exactly on a \<open>POSTING\<close> record; a record the upload
  handler is still working on; the invariant of the pipeline: lock fields only on
  \<open>POSTING\<close> records, a published pointer only when the upload handler is done, a
  record in the upload handler's hands not yet handed off, and records only at ids
  Firestore can address.\<close>

definition lock_fields_iff_posting :: "doc \<Rightarrow> bool" where
  "lock_fields_iff_posting d =
     (((d ''lock_token'' \<noteq> None) = (d ''status'' = Some (Str ''POSTING''))) \<and>
      ((d ''locked_at'' \<noteq> None) = (d ''status'' = Some (Str ''POSTING''))))"

definition before_handoff :: "doc \<Rightarrow> bool" where
  "before_handoff d =
     (d ''lock_token'' = None \<and> d ''locked_at'' = None \<and>
      (d ''status'' = Some (Str ''RECEIVED'') \<or> d ''status'' = Some (Str ''GENERATING'') \<or>
       d ''status'' = Some (Str ''QUEUED'')))"

definition pipeline_inv :: "sys \<Rightarrow> bool" where
  "pipeline_inv s =
     ((\<forall>i d. store s i = Some d \<longrightarrow> lock_fields_iff_posting d) \<and>
      (\<forall>i. i \<in> pointers s \<longrightarrow> phase s i = Finished) \<and>
      (\<forall>i. phase s i = Claimed \<or> phase s i = InTry \<or> phase s i = Stored \<longrightarrow>
           (\<exists>d. store s i = Some d \<and> before_handoff d)) \<and>
      (\<forall>i. phase s i = Finished \<longrightarrow> store s i \<noteq> None) \<and>
      (\<forall>i. store s i \<noteq> None \<longrightarrow> addressable i))"

section \<open>Example inputs\<close>

definition demo_world :: world where
  "demo_world =
     \<lparr>uuid4 = ''tok-1'', utcnow = 1000, now_timestamp = 1000, server_timestamp = 1001,
      firestore = Applied, get_db = None\<rparr>"

definition demo_claimed :: sys where
  "demo_claimed =
     init\<lparr>store := snd (claim_txn demo_world (store init) ''a'' ''bkt'' ''cake.png''),
          phase := (phase init)(''a'' := Claimed)\<rparr>"

definition demo_generating :: sys where
  "demo_generating =
     demo_claimed\<lparr>store := update_status demo_world (store demo_claimed) ''a'' ''GENERATING'' [],
                  phase := (phase demo_claimed)(''a'' := InTry)\<rparr>"

definition demo_queued :: sys where
  "demo_queued =
     demo_generating\<lparr>store := update_status demo_world (store demo_generating) ''a'' ''QUEUED''
                         [Draft ''Warm crusty loaf'', ImageUrl ''https://u'',
                          SignedUrlExpires 4600],
                     phase := (phase demo_generating)(''a'' := Stored)\<rparr>"

definition demo_published :: sys where
  "demo_published =
     demo_queued\<lparr>phase := (phase demo_queued)(''a'' := Finished),
                 pointers := insert ''a'' (pointers demo_queued)\<rparr>"

definition demo_posting :: sys where
  "demo_posting =
     demo_published\<lparr>store := snd (try_acquire demo_world (store demo_published) ''a'')\<rparr>"

definition demo_posted :: sys where
  "demo_posted =
     demo_posting\<lparr>store := snd (try_release_success demo_world (store demo_posting) ''a''
                                  ''tok-1'' ''posts/1'')\<rparr>"

definition demo_doc_posting :: doc where
  "demo_doc_posting =
     [''doc_id'' \<mapsto> Str ''a'', ''bucket'' \<mapsto> Str ''bkt'', ''filename'' \<mapsto> Str ''cake.png'',
      ''created_at'' \<mapsto> Time 1001, ''draft'' \<mapsto> Str ''Warm crusty loaf'',
      ''image_url'' \<mapsto> Str ''https://u'', ''signed_url_expires'' \<mapsto> Time 4600,
      ''status'' \<mapsto> Str ''POSTING'', ''lock_token'' \<mapsto> Str ''tok-1'',
      ''locked_at'' \<mapsto> Time 1000, ''updated_at'' \<mapsto> Time 1001]"

definition demo_doc_posted :: doc where
  "demo_doc_posted =
     [''doc_id'' \<mapsto> Str ''a'', ''bucket'' \<mapsto> Str ''bkt'', ''filename'' \<mapsto> Str ''cake.png'',
      ''created_at'' \<mapsto> Time 1001, ''draft'' \<mapsto> Str ''Warm crusty loaf'',
      ''image_url'' \<mapsto> Str ''https://u'', ''signed_url_expires'' \<mapsto> Time 4600,
      ''status'' \<mapsto> Str ''POSTED'', ''gbp_post_name'' \<mapsto> Str ''posts/1'',
      ''posted_at'' \<mapsto> Time 1001, ''updated_at'' \<mapsto> Time 1001]"

definition demo_env :: poster_env where
  "demo_env =
     \<lparr>handler_get_db = None, snapshot_ok = True, acquire_world = demo_world,
      release_world = demo_world, DRY_RUN = False,
      gbp = \<lparr>PROJECT_ID = Some ''proj'', LOCATION_ID = Some ''accounts/1/locations/2'',
             get_credentials = None, http_post = HTTP_Response 503 ''unavailable'' None\<rparr>,
      dlq_ok = True, dlq_now = 1002\<rparr>"

definition demo_doc_queued :: doc where
  "demo_doc_queued =
     [''filename'' \<mapsto> Str ''cake.png'', ''draft'' \<mapsto> Str ''Warm crusty loaf'',
      ''image_url'' \<mapsto> Str ''https://u'', ''status'' \<mapsto> Str ''QUEUED'']"

definition demo_doc_incomplete :: doc where
  "demo_doc_incomplete =
     [''filename'' \<mapsto> Str ''cake.png'', ''draft'' \<mapsto> Str ''Warm crusty loaf'',
      ''status'' \<mapsto> Str ''QUEUED'']"


definition demo_long_caption :: string where
  "demo_long_caption =
     ''a a a a a a a a a a a a a a a a a a a a a a a a a a a a a a a a a a a a a a a a a''"




section \<open>Claiming a document\<close>

text \<open>
  C1. For an id Firestore can address: \<open>claim_document\<close> on a store with no record at
  the id, when the transaction goes through, creates the record (status \<open>RECEIVED\<close>,
  the given bucket and filename, the id, the server's creation time) and returns true;
  on a store that holds a record at the id it returns false and the store is the same,
  however the transaction ends; and when the transaction fails it returns false to the
  caller and does not raise.
\<close>

theorem claim_document_first_writer_wins:
  "addressable doc_id \<longrightarrow>
   (firestore w = Applied \<and> st doc_id = None \<longrightarrow>
      claim_document w st doc_id bucket filename =
        Inr (True,
             st(doc_id \<mapsto>
               [''doc_id'' \<mapsto> Str doc_id, ''bucket'' \<mapsto> Str bucket, ''filename'' \<mapsto> Str filename,
                ''status'' \<mapsto> Str ''RECEIVED'', ''created_at'' \<mapsto> Time (server_timestamp w)]))) \<and>
   (st doc_id = Some d \<longrightarrow> claim_document w st doc_id bucket filename = Inr (False, st)) \<and>
   (firestore w \<noteq> Applied \<longrightarrow>
      (\<exists>st'. claim_document w st doc_id bucket filename = Inr (False, st')))"
  by (cases "firestore w")
     (auto simp: claim_document_def claim_txn_def transact_def update_fields_def
        split: option.splits)

theorem claim_document_first_writer_wins_witness:
  "addressable ''0a1b'' \<and>
   claim_document \<lparr>uuid4 = ''tok-1'', utcnow = 1000, now_timestamp = 1000, server_timestamp = 1001, firestore = Applied, get_db = None\<rparr> Map.empty ''0a1b'' ''bkt'' ''cake.png''
     = Inr (True,
            [''0a1b'' \<mapsto> [''doc_id'' \<mapsto> Str ''0a1b'', ''bucket'' \<mapsto> Str ''bkt'',
                        ''filename'' \<mapsto> Str ''cake.png'', ''status'' \<mapsto> Str ''RECEIVED'',
                        ''created_at'' \<mapsto> Time 1001]]) \<and>
   claim_document \<lparr>uuid4 = ''tok-1'', utcnow = 1000, now_timestamp = 1000, server_timestamp = 1001, firestore = Applied, get_db = None\<rparr> [''0a1b'' \<mapsto> [''status'' \<mapsto> Str ''QUEUED'']] ''0a1b'' ''bkt'' ''cake.png''
     = Inr (False, [''0a1b'' \<mapsto> [''status'' \<mapsto> Str ''QUEUED'']]) \<and>
   (\<exists>st'. claim_document \<lparr>uuid4 = ''tok-1'', utcnow = 1000, now_timestamp = 1000, server_timestamp = 1001, firestore = Refused, get_db = None\<rparr> Map.empty ''0a1b'' ''bkt'' ''cake.png'' = Inr (False, st')) \<and>
   (\<exists>st'. claim_document \<lparr>uuid4 = ''tok-1'', utcnow = 1000, now_timestamp = 1000, server_timestamp = 1001, firestore = Lost, get_db = None\<rparr> Map.empty ''0a1b'' ''bkt'' ''cake.png'' = Inr (False, st'))"
proof -
  have a: "addressable ''0a1b''"
    by (simp add: addressable_def)
  show ?thesis
    using a
      claim_document_first_writer_wins
        [where w = "\<lparr>uuid4 = ''tok-1'', utcnow = 1000, now_timestamp = 1000, server_timestamp = 1001, firestore = Applied, get_db = None\<rparr>" and st = Map.empty and doc_id = "''0a1b''" and bucket = "''bkt''"
           and filename = "''cake.png''"]
      claim_document_first_writer_wins
        [where w = "\<lparr>uuid4 = ''tok-1'', utcnow = 1000, now_timestamp = 1000, server_timestamp = 1001, firestore = Applied, get_db = None\<rparr>" and st = "[''0a1b'' \<mapsto> [''status'' \<mapsto> Str ''QUEUED'']]"
           and d = "[''status'' \<mapsto> Str ''QUEUED'']"
           and doc_id = "''0a1b''" and bucket = "''bkt''" and filename = "''cake.png''"]
      claim_document_first_writer_wins
        [where w = "\<lparr>uuid4 = ''tok-1'', utcnow = 1000, now_timestamp = 1000, server_timestamp = 1001, firestore = Refused, get_db = None\<rparr>" and st = Map.empty and doc_id = "''0a1b''" and bucket = "''bkt''"
           and filename = "''cake.png''"]
      claim_document_first_writer_wins
        [where w = "\<lparr>uuid4 = ''tok-1'', utcnow = 1000, now_timestamp = 1000, server_timestamp = 1001, firestore = Lost, get_db = None\<rparr>" and st = Map.empty and doc_id = "''0a1b''" and bucket = "''bkt''"
           and filename = "''cake.png''"]
    by simp
qed

section \<open>The posting lock\<close>

text \<open>
  C2. With the client at hand and an id Firestore can address, \<open>acquire_posting_lock\<close>
  follows the decision table. It returns \<open>None\<close> and leaves the store as it is when
  there is no record, when the status is \<open>POSTED\<close> or \<open>FAILED\<close>, when the status is
  \<open>POSTING\<close> and the lock is younger than \<open>LOCK_TTL_SECONDS\<close>, and when the status
  is anything other than \<open>QUEUED\<close> and \<open>POSTING\<close>. When the status is \<open>QUEUED\<close>, or
  \<open>POSTING\<close> with a lock at least \<open>LOCK_TTL_SECONDS\<close> old, and the transaction goes
  through, it writes status \<open>POSTING\<close>, the token just drawn and \<open>locked_at = now\<close>,
  and returns that token.
\<close>

theorem acquire_posting_lock_decision_table:
  "get_db w = None \<and> addressable doc_id \<longrightarrow>
   (st doc_id = None \<longrightarrow> acquire_posting_lock w st doc_id = Inr (None, st)) \<and>
   (st doc_id = Some d \<and> (d ''status'' = Some (Str ''POSTED'') \<or> d ''status'' = Some (Str ''FAILED''))
      \<longrightarrow> acquire_posting_lock w st doc_id = Inr (None, st)) \<and>
   (st doc_id = Some d \<and> d ''status'' = Some (Str ''POSTING'') \<and> d ''locked_at'' = Some (Time t) \<and>
    now_timestamp w - t < LOCK_TTL_SECONDS
      \<longrightarrow> acquire_posting_lock w st doc_id = Inr (None, st)) \<and>
   (st doc_id = Some d \<and> d ''status'' \<noteq> Some (Str ''QUEUED'') \<and> d ''status'' \<noteq> Some (Str ''POSTING'')
      \<longrightarrow> acquire_posting_lock w st doc_id = Inr (None, st)) \<and>
   (firestore w = Applied \<and> st doc_id = Some d \<and>
    (d ''status'' = Some (Str ''QUEUED'') \<or>
     d ''status'' = Some (Str ''POSTING'') \<and> d ''locked_at'' = Some (Time t) \<and>
     now_timestamp w - t \<ge> LOCK_TTL_SECONDS)
      \<longrightarrow> acquire_posting_lock w st doc_id =
            Inr (Some (uuid4 w),
                 st(doc_id \<mapsto> d(''status'' \<mapsto> Str ''POSTING'', ''lock_token'' \<mapsto> Str (uuid4 w),
                                  ''locked_at'' \<mapsto> Time (utcnow w),
                                  ''updated_at'' \<mapsto> Time (server_timestamp w)))))"
  by (cases "firestore w")
     (auto simp: acquire_posting_lock_def try_acquire_def acquire_txn_def transact_def
        update_fields_def TERMINAL_STATUSES_def Let_def split: option.splits fval.splits)

theorem acquire_posting_lock_decision_table_witness:
  "acquire_posting_lock \<lparr>uuid4 = ''tok-1'', utcnow = 1000, now_timestamp = 1000, server_timestamp = 1001, firestore = Applied, get_db = None\<rparr> Map.empty ''a'' = Inr (None, Map.empty) \<and>
   acquire_posting_lock \<lparr>uuid4 = ''tok-1'', utcnow = 1000, now_timestamp = 1000, server_timestamp = 1001, firestore = Applied, get_db = None\<rparr> [''a'' \<mapsto> [''status'' \<mapsto> Str ''POSTED'']] ''a''
     = Inr (None, [''a'' \<mapsto> [''status'' \<mapsto> Str ''POSTED'']]) \<and>
   acquire_posting_lock \<lparr>uuid4 = ''tok-1'', utcnow = 1000, now_timestamp = 1000, server_timestamp = 1001, firestore = Applied, get_db = None\<rparr>
      [''a'' \<mapsto> [''status'' \<mapsto> Str ''POSTING'', ''locked_at'' \<mapsto> Time 881]] ''a''
     = Inr (None, [''a'' \<mapsto> [''status'' \<mapsto> Str ''POSTING'', ''locked_at'' \<mapsto> Time 881]]) \<and>
   acquire_posting_lock \<lparr>uuid4 = ''tok-1'', utcnow = 1000, now_timestamp = 1000, server_timestamp = 1001, firestore = Applied, get_db = None\<rparr> [''a'' \<mapsto> [''status'' \<mapsto> Str ''GENERATING'']] ''a''
     = Inr (None, [''a'' \<mapsto> [''status'' \<mapsto> Str ''GENERATING'']]) \<and>
   acquire_posting_lock \<lparr>uuid4 = ''tok-1'', utcnow = 1000, now_timestamp = 1000, server_timestamp = 1001, firestore = Applied, get_db = None\<rparr> [''a'' \<mapsto> [''status'' \<mapsto> Str ''QUEUED'']] ''a''
     = Inr (Some ''tok-1'',
            [''a'' \<mapsto> [''status'' \<mapsto> Str ''POSTING'', ''lock_token'' \<mapsto> Str ''tok-1'',
                       ''locked_at'' \<mapsto> Time 1000, ''updated_at'' \<mapsto> Time 1001]]) \<and>
   acquire_posting_lock \<lparr>uuid4 = ''tok-1'', utcnow = 1000, now_timestamp = 1000, server_timestamp = 1001, firestore = Applied, get_db = None\<rparr>
      [''a'' \<mapsto> [''status'' \<mapsto> Str ''POSTING'', ''lock_token'' \<mapsto> Str ''old'',
                 ''locked_at'' \<mapsto> Time 880]] ''a''
     = Inr (Some ''tok-1'',
            [''a'' \<mapsto> [''status'' \<mapsto> Str ''POSTING'', ''lock_token'' \<mapsto> Str ''tok-1'',
                       ''locked_at'' \<mapsto> Time 1000, ''updated_at'' \<mapsto> Time 1001]])"
proof -
  have a: "addressable ''a''"
    by (simp add: addressable_def)
  show ?thesis
    using a
      acquire_posting_lock_decision_table
        [where w = "\<lparr>uuid4 = ''tok-1'', utcnow = 1000, now_timestamp = 1000, server_timestamp = 1001, firestore = Applied, get_db = None\<rparr>" and doc_id = "''a''" and st = "Map.empty"]
      acquire_posting_lock_decision_table
        [where w = "\<lparr>uuid4 = ''tok-1'', utcnow = 1000, now_timestamp = 1000, server_timestamp = 1001, firestore = Applied, get_db = None\<rparr>" and doc_id = "''a''"
           and st = "[''a'' \<mapsto> [''status'' \<mapsto> Str ''POSTED'']]"
           and d = "[''status'' \<mapsto> Str ''POSTED'']"]
      acquire_posting_lock_decision_table
        [where w = "\<lparr>uuid4 = ''tok-1'', utcnow = 1000, now_timestamp = 1000, server_timestamp = 1001, firestore = Applied, get_db = None\<rparr>" and doc_id = "''a''"
           and st = "[''a'' \<mapsto> [''status'' \<mapsto> Str ''POSTING'', ''locked_at'' \<mapsto> Time 881]]"
           and d = "[''status'' \<mapsto> Str ''POSTING'', ''locked_at'' \<mapsto> Time 881]" and t = 881]
      acquire_posting_lock_decision_table
        [where w = "\<lparr>uuid4 = ''tok-1'', utcnow = 1000, now_timestamp = 1000, server_timestamp = 1001, firestore = Applied, get_db = None\<rparr>" and doc_id = "''a''"
           and st = "[''a'' \<mapsto> [''status'' \<mapsto> Str ''GENERATING'']]"
           and d = "[''status'' \<mapsto> Str ''GENERATING'']"]
      acquire_posting_lock_decision_table
        [where w = "\<lparr>uuid4 = ''tok-1'', utcnow = 1000, now_timestamp = 1000, server_timestamp = 1001, firestore = Applied, get_db = None\<rparr>" and doc_id = "''a''"
           and st = "[''a'' \<mapsto> [''status'' \<mapsto> Str ''QUEUED'']]"
           and d = "[''status'' \<mapsto> Str ''QUEUED'']"]
      acquire_posting_lock_decision_table
        [where w = "\<lparr>uuid4 = ''tok-1'', utcnow = 1000, now_timestamp = 1000, server_timestamp = 1001, firestore = Applied, get_db = None\<rparr>" and doc_id = "''a''"
           and st = "[''a'' \<mapsto> [''status'' \<mapsto> Str ''POSTING'', ''lock_token'' \<mapsto> Str ''old'',
                              ''locked_at'' \<mapsto> Time 880]]"
           and d = "[''status'' \<mapsto> Str ''POSTING'', ''lock_token'' \<mapsto> Str ''old'',
                     ''locked_at'' \<mapsto> Time 880]" and t = 880]
    by (simp add: LOCK_TTL_SECONDS_def fun_upd_twist)
qed

text \<open>
  C9. A record whose status is \<open>POSTING\<close> but which stores no \<open>locked_at\<close> is
  reclaimed at once, whatever the clock says: the token and \<open>locked_at\<close> are
  overwritten and the new token is returned.
\<close>

theorem acquire_posting_lock_missing_locked_at:
  "get_db w = None \<and> addressable doc_id \<and> firestore w = Applied \<and> st doc_id = Some d \<and>
   d ''status'' = Some (Str ''POSTING'') \<and> d ''locked_at'' = None \<longrightarrow>
   acquire_posting_lock w st doc_id =
     Inr (Some (uuid4 w),
          st(doc_id \<mapsto> d(''status'' \<mapsto> Str ''POSTING'', ''lock_token'' \<mapsto> Str (uuid4 w),
                           ''locked_at'' \<mapsto> Time (utcnow w),
                           ''updated_at'' \<mapsto> Time (server_timestamp w))))"
  by (simp add: acquire_posting_lock_def try_acquire_def acquire_txn_def transact_def
        update_fields_def TERMINAL_STATUSES_def Let_def)

theorem acquire_posting_lock_missing_locked_at_witness:
  "acquire_posting_lock \<lparr>uuid4 = ''tok-1'', utcnow = 1000, now_timestamp = 1000, server_timestamp = 1001, firestore = Applied, get_db = None\<rparr>
      [''a'' \<mapsto> [''status'' \<mapsto> Str ''POSTING'', ''lock_token'' \<mapsto> Str ''old'']] ''a''
     = Inr (Some ''tok-1'',
            [''a'' \<mapsto> [''status'' \<mapsto> Str ''POSTING'', ''lock_token'' \<mapsto> Str ''tok-1'',
                       ''locked_at'' \<mapsto> Time 1000, ''updated_at'' \<mapsto> Time 1001]])"
proof -
  have a: "addressable ''a''"
    by (simp add: addressable_def)
  show ?thesis
    using a
      acquire_posting_lock_missing_locked_at
        [where w = "\<lparr>uuid4 = ''tok-1'', utcnow = 1000, now_timestamp = 1000, server_timestamp = 1001, firestore = Applied, get_db = None\<rparr>" and doc_id = "''a''"
           and st = "[''a'' \<mapsto> [''status'' \<mapsto> Str ''POSTING'', ''lock_token'' \<mapsto> Str ''old'']]"
           and d = "[''status'' \<mapsto> Str ''POSTING'', ''lock_token'' \<mapsto> Str ''old'']"]
    by simp
qed

text \<open>
  C3. With the client at hand and an id Firestore can address, a release that presents
  a token other than the stored one returns false and the store is the same, for both
  release operations and however the transaction ends; and once a release has
  succeeded, a repeated release with the same token returns false and changes nothing.
\<close>

theorem release_rejects_stale_token:
  "get_db w = None \<and> get_db w' = None \<and> addressable doc_id \<longrightarrow>
   (st doc_id = Some d \<and> d ''lock_token'' \<noteq> Some (Str t) \<longrightarrow>
      release_lock_success w st doc_id t post_name = Inr (False, st) \<and>
      release_lock_failure w st doc_id t reason = Inr (False, st)) \<and>
   (release_lock_success w st doc_id t post_name = Inr (True, st') \<longrightarrow>
      release_lock_success w' st' doc_id t post_name' = Inr (False, st') \<and>
      release_lock_failure w' st' doc_id t reason = Inr (False, st')) \<and>
   (release_lock_failure w st doc_id t reason = Inr (True, st') \<longrightarrow>
      release_lock_success w' st' doc_id t post_name = Inr (False, st') \<and>
      release_lock_failure w' st' doc_id t reason' = Inr (False, st'))"
  by (cases "firestore w"; cases "firestore w'")
     (auto simp: release_lock_success_def release_lock_failure_def try_release_success_def
        try_release_failure_def release_success_txn_def release_failure_txn_def transact_def
        update_fields_def split: option.splits if_splits)

theorem release_rejects_stale_token_witness:
  "release_lock_success \<lparr>uuid4 = ''tok-1'', utcnow = 1000, now_timestamp = 1000, server_timestamp = 1001, firestore = Applied, get_db = None\<rparr>
      [''a'' \<mapsto> [''status'' \<mapsto> Str ''POSTING'', ''lock_token'' \<mapsto> Str ''tok-2'']] ''a'' ''tok-1''
      ''posts/1''
     = Inr (False, [''a'' \<mapsto> [''status'' \<mapsto> Str ''POSTING'', ''lock_token'' \<mapsto> Str ''tok-2'']]) \<and>
   release_lock_failure \<lparr>uuid4 = ''tok-1'', utcnow = 1000, now_timestamp = 1000, server_timestamp = 1001, firestore = Applied, get_db = None\<rparr>
      [''a'' \<mapsto> [''status'' \<mapsto> Str ''POSTING'', ''lock_token'' \<mapsto> Str ''tok-2'']] ''a'' ''tok-1''
      ''late''
     = Inr (False, [''a'' \<mapsto> [''status'' \<mapsto> Str ''POSTING'', ''lock_token'' \<mapsto> Str ''tok-2'']]) \<and>
   release_lock_success \<lparr>uuid4 = ''tok-1'', utcnow = 1000, now_timestamp = 1000, server_timestamp = 1001, firestore = Applied, get_db = None\<rparr>
      [''a'' \<mapsto> [''status'' \<mapsto> Str ''POSTING'', ''lock_token'' \<mapsto> Str ''tok-2'']] ''a'' ''tok-2''
      ''posts/1''
     = Inr (True, [''a'' \<mapsto> [''status'' \<mapsto> Str ''POSTED'', ''gbp_post_name'' \<mapsto> Str ''posts/1'',
                             ''posted_at'' \<mapsto> Time 1001, ''updated_at'' \<mapsto> Time 1001]]) \<and>
   release_lock_success \<lparr>uuid4 = ''tok-1'', utcnow = 1000, now_timestamp = 1000, server_timestamp = 1001, firestore = Applied, get_db = None\<rparr>
      [''a'' \<mapsto> [''status'' \<mapsto> Str ''POSTED'', ''gbp_post_name'' \<mapsto> Str ''posts/1'',
                 ''posted_at'' \<mapsto> Time 1001, ''updated_at'' \<mapsto> Time 1001]] ''a'' ''tok-2''
      ''posts/1''
     = Inr (False, [''a'' \<mapsto> [''status'' \<mapsto> Str ''POSTED'', ''gbp_post_name'' \<mapsto> Str ''posts/1'',
                              ''posted_at'' \<mapsto> Time 1001, ''updated_at'' \<mapsto> Time 1001]])"
proof -
  have a: "addressable ''a''"
    by (simp add: addressable_def)
  have ok: "release_lock_success \<lparr>uuid4 = ''tok-1'', utcnow = 1000, now_timestamp = 1000, server_timestamp = 1001, firestore = Applied, get_db = None\<rparr>
      [''a'' \<mapsto> [''status'' \<mapsto> Str ''POSTING'', ''lock_token'' \<mapsto> Str ''tok-2'']] ''a'' ''tok-2''
      ''posts/1''
     = Inr (True, [''a'' \<mapsto> [''status'' \<mapsto> Str ''POSTED'', ''gbp_post_name'' \<mapsto> Str ''posts/1'',
                             ''posted_at'' \<mapsto> Time 1001, ''updated_at'' \<mapsto> Time 1001]])"
    using a
    by (auto simp: release_lock_success_def try_release_success_def release_success_txn_def
          transact_def update_fields_def)
  show ?thesis
    using a ok
      release_rejects_stale_token
        [where w = "\<lparr>uuid4 = ''tok-1'', utcnow = 1000, now_timestamp = 1000, server_timestamp = 1001, firestore = Applied, get_db = None\<rparr>" and w' = "\<lparr>uuid4 = ''tok-1'', utcnow = 1000, now_timestamp = 1000, server_timestamp = 1001, firestore = Applied, get_db = None\<rparr>"
           and doc_id = "''a''" and t = "''tok-1''" and post_name = "''posts/1''"
           and reason = "''late''"
           and st = "[''a'' \<mapsto> [''status'' \<mapsto> Str ''POSTING'', ''lock_token'' \<mapsto> Str ''tok-2'']]"
           and d = "[''status'' \<mapsto> Str ''POSTING'', ''lock_token'' \<mapsto> Str ''tok-2'']"]
      release_rejects_stale_token
        [where w = "\<lparr>uuid4 = ''tok-1'', utcnow = 1000, now_timestamp = 1000, server_timestamp = 1001, firestore = Applied, get_db = None\<rparr>" and w' = "\<lparr>uuid4 = ''tok-1'', utcnow = 1000, now_timestamp = 1000, server_timestamp = 1001, firestore = Applied, get_db = None\<rparr>"
           and doc_id = "''a''" and t = "''tok-2''" and post_name = "''posts/1''"
           and post_name' = "''posts/1''"
           and st = "[''a'' \<mapsto> [''status'' \<mapsto> Str ''POSTING'', ''lock_token'' \<mapsto> Str ''tok-2'']]"
           and st' = "[''a'' \<mapsto> [''status'' \<mapsto> Str ''POSTED'', ''gbp_post_name'' \<mapsto> Str ''posts/1'',
                                  ''posted_at'' \<mapsto> Time 1001, ''updated_at'' \<mapsto> Time 1001]]"]
    by simp
qed

section \<open>The sentinel and the generation loop\<close>

text \<open>
  C8. A candidate whose caption, stripped and split on whitespace, has more than
  40 words is rejected whatever its \<open>word_count\<close> field says. The reason is
  \<open>TOO_LONG\<close> with the count when the candidate does not report a price itself; when
  its \<open>contains_price\<close> field is true the earlier check rejects it first, with
  \<open>PRICE_SELF_REPORTED\<close>.
\<close>

theorem sentinel_check_too_long:
  "json_get kvs ''caption'' = Some (JStr raw) \<and> length (str_split (str_strip raw)) > 40 \<longrightarrow>
   (\<not> json_truthy (case json_get kvs ''contains_price'' of None \<Rightarrow> JBool False | Some v \<Rightarrow> v) \<longrightarrow>
      sentinel_check (JObj kvs) =
        Some (False, ''TOO_LONG ('' @ str_nat (length (str_split (str_strip raw))) @ '' words)'')) \<and>
   (json_truthy (case json_get kvs ''contains_price'' of None \<Rightarrow> JBool False | Some v \<Rightarrow> v) \<longrightarrow>
      sentinel_check (JObj kvs) = Some (False, ''PRICE_SELF_REPORTED''))"
  by (auto simp: sentinel_check_def Let_def str_split_def)

theorem sentinel_check_too_long_witness:
  "sentinel_check (JObj [(''caption'', JStr demo_long_caption), (''word_count'', JNum 12),
                         (''contains_price'', JBool False)])
     = Some (False, ''TOO_LONG (41 words)'')"
proof -
  have c: "json_get [(''caption'', JStr demo_long_caption), (''word_count'', JNum 12),
                     (''contains_price'', JBool False)] ''caption'' = Some (JStr demo_long_caption)"
    by (simp add: json_get_def)
  have p: "json_get [(''caption'', JStr demo_long_caption), (''word_count'', JNum 12),
                     (''contains_price'', JBool False)] ''contains_price'' = Some (JBool False)"
    by (simp add: json_get_def)
  have n: "length (str_split (str_strip demo_long_caption)) = 41"
    by code_simp
  have s: "str_nat 41 = ''41''"
    by code_simp
  from sentinel_check_too_long
         [of "[(''caption'', JStr demo_long_caption), (''word_count'', JNum 12),
               (''contains_price'', JBool False)]" demo_long_caption] c p n s
  show ?thesis
    by simp
qed

text \<open>A candidate of 41 words that reports a price itself: the reason is
  \<open>PRICE_SELF_REPORTED\<close> and not \<open>TOO_LONG\<close>.\<close>

theorem sentinel_check_too_long_counterexample:
  "length (str_split (str_strip demo_long_caption)) = 41 \<and>
   sentinel_check (JObj [(''caption'', JStr demo_long_caption), (''word_count'', JNum 12),
                         (''contains_price'', JBool True)])
     = Some (False, ''PRICE_SELF_REPORTED'') \<and>
   sentinel_check (JObj [(''caption'', JStr demo_long_caption), (''word_count'', JNum 12),
                         (''contains_price'', JBool True)])
     \<noteq> Some (False, ''TOO_LONG (41 words)'')"
  by code_simp










section \<open>The Publisher handler\<close>

text \<open>What a lock acquisition that returned a token has written, and when
  \<open>post_to_gbp\<close> reports a retryable failure.\<close>

lemma try_acquire_Some:
  "try_acquire w st doc_id = (Some tok, st1) \<Longrightarrow>
   \<exists>d. st doc_id = Some d \<and> tok = uuid4 w \<and> firestore w = Applied \<and>
       st1 = st(doc_id \<mapsto> d(''status'' \<mapsto> Str ''POSTING'', ''lock_token'' \<mapsto> Str tok,
                              ''locked_at'' \<mapsto> Time (utcnow w),
                              ''updated_at'' \<mapsto> Time (server_timestamp w)))"
  by (cases "firestore w")
     (auto simp: try_acquire_def acquire_txn_def transact_def update_fields_def Let_def
        split: option.splits fval.splits if_splits)

lemma post_to_gbp_retryable:
  "validate_config g = [] \<Longrightarrow> get_credentials g = None \<Longrightarrow>
   http_post g = HTTP_Timeout \<or> (\<exists>e. http_post g = HTTP_ConnectionError e) \<or>
   (\<exists>s b n. http_post g = HTTP_Response s b n \<and> s \<in> {429, 500, 502, 503, 504}) \<or>
   (\<exists>e. http_post g = HTTP_Raises e \<and> classify_error e = ''TRANSIENT'') \<Longrightarrow>
   (\<exists>err code. post_to_gbp g (Str dr) (Str u) = Inr (PostFailed err code True)) \<or>
   (\<exists>e. post_to_gbp g (Str dr) (Str u) = Inl e \<and> classify_error e = ''TRANSIENT'')"
  by (auto simp: post_to_gbp_def)

text \<open>
  C6. The handler holds a pointer to a complete record, has acquired the lock, is not in
  dry-run mode, and the publishing call fails retryably: it times out, the connection
  fails, the status is 429, 500, 502, 503 or 504, or it raises another exception that
  \<open>classify_error\<close> calls \<open>TRANSIENT\<close>. Then the handler raises (the message
  is redelivered), neither release operation has run (the store is the one the lock
  acquisition left, nothing is sent to the dead-letter topic), the record has status
  \<open>POSTING\<close>, which is not terminal, with the token and \<open>locked_at\<close> of this
  acquisition, and an acquisition \<open>LOCK_TTL_SECONDS\<close> later takes the lock over.
\<close>

theorem process_post_queue_retryable_keeps_lock:
  assumes "doc_id \<noteq> []" and "handler_get_db env = None" and "addressable doc_id"
    and "snapshot_ok env" and "st doc_id = Some d"
    and "d ''draft'' = Some (Str dr)" and "dr \<noteq> []"
    and "d ''image_url'' = Some (Str u)" and "u \<noteq> []"
    and "try_acquire (acquire_world env) st doc_id = (Some tok, st1)" and "tok \<noteq> []"
    and "\<not> DRY_RUN env"
    and "validate_config (gbp env) = []" and "get_credentials (gbp env) = None"
    and "http_post (gbp env) = HTTP_Timeout \<or>
         (\<exists>e. http_post (gbp env) = HTTP_ConnectionError e) \<or>
         (\<exists>s b n. http_post (gbp env) = HTTP_Response s b n \<and> s \<in> {429, 500, 502, 503, 504}) \<or>
         (\<exists>e. http_post (gbp env) = HTTP_Raises e \<and> classify_error e = ''TRANSIENT'')"
  shows "process_post_queue env st dlq (Decoded doc_id) = (Redeliver, st1, dlq) \<and>
         (\<exists>d1. st1 doc_id = Some d1 \<and>
            d1 ''status'' = Some (Str ''POSTING'') \<and>
            d1 ''lock_token'' = Some (Str tok) \<and>
            d1 ''locked_at'' = Some (Time (utcnow (acquire_world env))) \<and>
            Str ''POSTING'' \<notin> TERMINAL_STATUSES) \<and>
         (\<forall>w'. get_db w' = None \<and> firestore w' = Applied \<and>
               now_timestamp w' - utcnow (acquire_world env) \<ge> LOCK_TTL_SECONDS \<longrightarrow>
               (\<exists>st2. acquire_posting_lock w' st1 doc_id = Inr (Some (uuid4 w'), st2)))"
proof -
  from post_to_gbp_retryable [OF assms(13,14,15), of dr u]
  consider (failed) err code where
      "post_to_gbp (gbp env) (Str dr) (Str u) = Inr (PostFailed err code True)"
    | (raised) e where "post_to_gbp (gbp env) (Str dr) (Str u) = Inl e"
      "classify_error e = ''TRANSIENT''"
    by blast
  then have run: "process_post_queue env st dlq (Decoded doc_id) = (Redeliver, st1, dlq)"
  proof cases
    case failed
    with assms(1-12) show ?thesis by (simp add: process_post_queue_def)
  next
    case raised
    with assms(1-12) show ?thesis by (cases e) (simp_all add: process_post_queue_def)
  qed
  from try_acquire_Some [OF assms(10)]
  have st1: "st1 = st(doc_id \<mapsto> d(''status'' \<mapsto> Str ''POSTING'', ''lock_token'' \<mapsto> Str tok,
                              ''locked_at'' \<mapsto> Time (utcnow (acquire_world env)),
                              ''updated_at'' \<mapsto> Time (server_timestamp (acquire_world env))))"
    using assms(5) by auto
  have held: "\<exists>d1. st1 doc_id = Some d1 \<and>
            d1 ''status'' = Some (Str ''POSTING'') \<and>
            d1 ''lock_token'' = Some (Str tok) \<and>
            d1 ''locked_at'' = Some (Time (utcnow (acquire_world env))) \<and>
            Str ''POSTING'' \<notin> TERMINAL_STATUSES"
    by (simp add: st1 TERMINAL_STATUSES_def)
  have reclaim: "\<exists>st2. acquire_posting_lock w' st1 doc_id = Inr (Some (uuid4 w'), st2)"
    if "get_db w' = None \<and> firestore w' = Applied \<and>
        now_timestamp w' - utcnow (acquire_world env) \<ge> LOCK_TTL_SECONDS" for w'
    using that assms(3)
    by (simp add: st1 acquire_posting_lock_def try_acquire_def acquire_txn_def transact_def
          Let_def TERMINAL_STATUSES_def)
  from run held reclaim show ?thesis by blast
qed

theorem process_post_queue_retryable_keeps_lock_witness:
  "process_post_queue demo_env [''a'' \<mapsto> demo_doc_queued] [] (Decoded ''a'')
     = (Redeliver,
        [''a'' \<mapsto> demo_doc_queued(''status'' \<mapsto> Str ''POSTING'', ''lock_token'' \<mapsto> Str ''tok-1'',
                                  ''locked_at'' \<mapsto> Time 1000, ''updated_at'' \<mapsto> Time 1001)],
        [])"
proof -
  have a: "addressable ''a''"
    by (simp add: addressable_def)
  have acq: "try_acquire (acquire_world demo_env) [''a'' \<mapsto> demo_doc_queued] ''a''
      = (Some ''tok-1'',
         [''a'' \<mapsto> demo_doc_queued(''status'' \<mapsto> Str ''POSTING'', ''lock_token'' \<mapsto> Str ''tok-1'',
                                   ''locked_at'' \<mapsto> Time 1000, ''updated_at'' \<mapsto> Time 1001)])"
    by (simp add: demo_env_def demo_world_def demo_doc_queued_def try_acquire_def
          acquire_txn_def transact_def Let_def TERMINAL_STATUSES_def update_fields_def)
  have cfg: "validate_config (gbp demo_env) = []"
    by (simp add: demo_env_def validate_config_def starts_with_def)
  have http: "http_post (gbp demo_env) = HTTP_Timeout \<or>
         (\<exists>e. http_post (gbp demo_env) = HTTP_ConnectionError e) \<or>
         (\<exists>s b n. http_post (gbp demo_env) = HTTP_Response s b n \<and> s \<in> {429, 500, 502, 503, 504}) \<or>
         (\<exists>e. http_post (gbp demo_env) = HTTP_Raises e \<and> classify_error e = ''TRANSIENT'')"
    by (simp add: demo_env_def)
  from process_post_queue_retryable_keeps_lock
         [where doc_id = "''a''" and env = demo_env and st = "[''a'' \<mapsto> demo_doc_queued]"
            and d = demo_doc_queued and dr = "''Warm crusty loaf''" and u = "''https://u''"
            and tok = "''tok-1''" and dlq = "[]", OF _ _ a _ _ _ _ _ _ acq _ _ cfg _ http]
  show ?thesis
    by (simp add: demo_env_def demo_doc_queued_def)
qed

text \<open>
  C10. The record a pointer names exists but has no draft or no image URL (the field is
  missing or empty). The handler returns normally, the store is the same, and the
  dead-letter topic receives one \<open>INCOMPLETE_DOCUMENT\<close> message for the record when
  handing it to the publisher of that topic goes through.
\<close>

theorem process_post_queue_incomplete_document:
  assumes "doc_id \<noteq> []" and "handler_get_db env = None" and "addressable doc_id"
    and "snapshot_ok env" and "st doc_id = Some d"
    and "d ''draft'' = None \<or> d ''draft'' = Some (Str []) \<or>
         d ''image_url'' = None \<or> d ''image_url'' = Some (Str [])"
  shows "fst (process_post_queue env st dlq (Decoded doc_id)) = Ack \<and>
         fst (snd (process_post_queue env st dlq (Decoded doc_id))) = st \<and>
         (dlq_ok env \<and> d ''filename'' = Some (Str f) \<longrightarrow>
            snd (snd (process_post_queue env st dlq (Decoded doc_id))) =
              dlq @ [\<lparr>dlq_doc_id = doc_id, dlq_filename = f,
                       dlq_reason = ''INCOMPLETE_DOCUMENT'',
                       dlq_source = ''bakers-poster-v1'', dlq_timestamp = dlq_now env\<rparr>]) \<and>
         (dlq_ok env \<and> d ''filename'' = None \<longrightarrow>
            snd (snd (process_post_queue env st dlq (Decoded doc_id))) =
              dlq @ [\<lparr>dlq_doc_id = doc_id, dlq_filename = ''unknown'',
                       dlq_reason = ''INCOMPLETE_DOCUMENT'',
                       dlq_source = ''bakers-poster-v1'', dlq_timestamp = dlq_now env\<rparr>])"
  using assms
  by (auto simp: process_post_queue_def Let_def send_to_dlq_def split: option.splits)

theorem process_post_queue_incomplete_document_witness:
  "process_post_queue demo_env [''a'' \<mapsto> demo_doc_incomplete] [] (Decoded ''a'')
     = (Ack, [''a'' \<mapsto> demo_doc_incomplete],
        [\<lparr>dlq_doc_id = ''a'', dlq_filename = ''cake.png'', dlq_reason = ''INCOMPLETE_DOCUMENT'',
          dlq_source = ''bakers-poster-v1'', dlq_timestamp = 1002\<rparr>])"
proof -
  have a: "addressable ''a''"
    by (simp add: addressable_def)
  from process_post_queue_incomplete_document
      [where doc_id = "''a''" and env = demo_env and st = "[''a'' \<mapsto> demo_doc_incomplete]"
         and d = demo_doc_incomplete and dlq = "[]" and f = "''cake.png''", OF _ _ a]
  show ?thesis
    by (cases "process_post_queue demo_env [''a'' \<mapsto> demo_doc_incomplete] [] (Decoded ''a'')")
       (simp add: demo_env_def demo_doc_incomplete_def)
qed

section \<open>Invariants of the pipeline\<close>

text \<open>What each store operation can do to the collection.\<close>

lemma before_handoff_lock: "before_handoff d \<Longrightarrow> lock_fields_iff_posting d"
  by (auto simp: before_handoff_def lock_fields_iff_posting_def)

lemma claim_document_result:
  "claim_document w st i b f = Inr (ok, st') \<Longrightarrow>
   addressable i \<and>
   (st' = st \<and> \<not> ok \<or> st i = None \<and> (\<exists>d. st' = st(i \<mapsto> d) \<and> before_handoff d))"
  by (cases "firestore w")
     (auto simp: claim_document_def claim_txn_def transact_def update_fields_def
        before_handoff_def split: if_splits option.splits)

lemma extra_fields_keep:
  "k = ''lock_token'' \<or> k = ''locked_at'' \<or> k = ''status'' \<Longrightarrow>
   foldl (apply_fupd srv) d0 (map extra_entry extra) k = d0 k"
proof (induction extra arbitrary: d0)
  case Nil
  then show ?case by simp
next
  case (Cons x xs)
  then show ?case by (cases x) auto
qed

lemma update_status_result:
  "update_status w st i status extra = st \<or>
   (\<exists>d d'. st i = Some d \<and> update_status w st i status extra = st(i \<mapsto> d') \<and>
      d' ''lock_token'' = d ''lock_token'' \<and> d' ''locked_at'' = d ''locked_at'' \<and>
      d' ''status'' = Some (Str status))"
  by (cases "firestore w")
     (auto simp: update_status_def transact_def update_fields_def extra_fields_keep
        split: option.splits)

lemma acquire_result:
  "snd (try_acquire w st i) = st \<or>
   (\<exists>d d'. st i = Some d \<and> snd (try_acquire w st i) = st(i \<mapsto> d') \<and>
      d' ''status'' = Some (Str ''POSTING'') \<and> d' ''lock_token'' \<noteq> None \<and>
      d' ''locked_at'' \<noteq> None)"
  by (cases "firestore w")
     (auto simp: try_acquire_def acquire_txn_def transact_def update_fields_def Let_def
        split: option.splits fval.splits if_splits)

lemma release_success_result:
  "snd (try_release_success w st i t pn) = st \<or>
   (\<exists>d d'. st i = Some d \<and> d ''lock_token'' = Some (Str t) \<and>
      snd (try_release_success w st i t pn) = st(i \<mapsto> d') \<and>
      d' ''status'' = Some (Str ''POSTED'') \<and> d' ''lock_token'' = None \<and>
      d' ''locked_at'' = None)"
  by (cases "firestore w")
     (auto simp: try_release_success_def release_success_txn_def transact_def update_fields_def
        split: option.splits if_splits)

lemma release_failure_result:
  "snd (try_release_failure w st i t r) = st \<or>
   (\<exists>d d'. st i = Some d \<and> d ''lock_token'' = Some (Str t) \<and>
      snd (try_release_failure w st i t r) = st(i \<mapsto> d') \<and>
      d' ''status'' = Some (Str ''FAILED'') \<and> d' ''lock_token'' = None \<and>
      d' ''locked_at'' = None)"
  by (cases "firestore w")
     (auto simp: try_release_failure_def release_failure_txn_def transact_def update_fields_def
        split: option.splits if_splits)

text \<open>Every step keeps the invariant.\<close>

lemma inv_claim:
  assumes "pipeline_inv s" and "claim_document w (store s) i b f = Inr (ok, st')"
  shows "pipeline_inv (s\<lparr>store := st', phase := (if ok then (phase s)(i := Claimed) else phase s)\<rparr>)"
proof -
  from claim_document_result [OF assms(2)]
  consider (new) d where "store s i = None" "st' = (store s)(i \<mapsto> d)" "before_handoff d"
      "addressable i"
    | (dup) "\<not> ok" "st' = store s"
    by blast
  then show ?thesis
  proof cases
    case new
    from assms(1) new(1) have "phase s i = Unclaimed" "i \<notin> pointers s"
      by (cases "phase s i"; auto simp: pipeline_inv_def)+
    with assms(1) new show ?thesis
      by (auto simp: pipeline_inv_def before_handoff_lock)
  next
    case dup
    with assms(1) show ?thesis by (cases s) (simp add: pipeline_inv_def)
  qed
qed

lemma inv_update_status:
  assumes inv: "pipeline_inv s"
    and ph: "phase s i = Claimed \<or> phase s i = InTry \<or> phase s i = Stored"
    and st: "status = ''GENERATING'' \<or> status = ''QUEUED'' \<or> status = ''FAILED''"
    and nx: "p' = Finished \<or> (status \<noteq> ''FAILED'' \<and> (p' = InTry \<or> p' = Stored))"
  shows "pipeline_inv (s\<lparr>store := update_status w (store s) i status extra,
                          phase := (phase s)(i := p')\<rparr>)"
proof -
  from inv ph obtain d0 where d0: "store s i = Some d0" "before_handoff d0"
    by (auto simp: pipeline_inv_def)
  from inv ph have np: "i \<notin> pointers s"
    by (auto simp: pipeline_inv_def)
  from update_status_result [of w "store s" i status extra]
  consider (same) "update_status w (store s) i status extra = store s"
    | (upd) d' where "update_status w (store s) i status extra = (store s)(i \<mapsto> d')"
        "d' ''lock_token'' = d0 ''lock_token''" "d' ''locked_at'' = d0 ''locked_at''"
        "d' ''status'' = Some (Str status)"
    using d0 by auto
  then show ?thesis
  proof cases
    case same
    with inv d0 np nx show ?thesis
      by (auto simp: pipeline_inv_def)
  next
    case upd
    from upd d0 st have l: "lock_fields_iff_posting d'"
      by (auto simp: lock_fields_iff_posting_def before_handoff_def)
    from upd d0 have h: "status \<noteq> ''FAILED'' \<Longrightarrow> before_handoff d'"
      using st by (auto simp: before_handoff_def)
    from inv np nx l h upd(1) d0(1) show ?thesis
      by (auto simp: pipeline_inv_def)
  qed
qed

lemma inv_poster:
  assumes inv: "pipeline_inv s" and ptr: "i \<in> pointers s"
    and res: "st' = store s \<or>
       (\<exists>d d'. store s i = Some d \<and> st' = (store s)(i \<mapsto> d') \<and> lock_fields_iff_posting d')"
  shows "pipeline_inv (s\<lparr>store := st'\<rparr>)"
proof -
  from inv ptr have fin: "phase s i = Finished" by (auto simp: pipeline_inv_def)
  from res show ?thesis
  proof
    assume "st' = store s"
    with inv show ?thesis by (cases s) (simp add: pipeline_inv_def)
  next
    assume "\<exists>d d'. store s i = Some d \<and> st' = (store s)(i \<mapsto> d') \<and> lock_fields_iff_posting d'"
    then obtain d d' where "store s i = Some d" "st' = (store s)(i \<mapsto> d')"
      "lock_fields_iff_posting d'" by blast
    with inv fin show ?thesis
      by (auto simp: pipeline_inv_def)
  qed
qed

lemma step_preserves_inv:
  assumes "step s s'" and "pipeline_inv s"
  shows "pipeline_inv s'"
  using assms
proof (cases rule: step.cases)
  case (upload_claim w i bucket filename st')
  with inv_claim [OF assms(2) upload_claim(2)] show ?thesis by simp
next
  case (upload_duplicate w i bucket filename st')
  with inv_claim [OF assms(2) upload_duplicate(2)] show ?thesis by simp
next
  case (upload_generating i w)
  with inv_update_status [OF assms(2), of i "''GENERATING''" InTry w "[]"] show ?thesis by simp
next
  case (upload_blocked i w)
  with inv_update_status [OF assms(2), of i "''FAILED''" Finished w
      "[FailureReason ''SENTINEL_BLOCKED_ALL_ATTEMPTS'']"]
  show ?thesis by simp
next
  case (upload_queued i caption w signed_url expires)
  with inv_update_status [OF assms(2), of i "''QUEUED''" Stored w
      "[Draft caption, ImageUrl signed_url, SignedUrlExpires expires]"]
  show ?thesis by simp
next
  case (upload_published i)
  with assms(2) show ?thesis
    by (auto simp: pipeline_inv_def)
next
  case (upload_exception i w e)
  with inv_update_status [OF assms(2), of i "''FAILED''" Finished w "[FailureReason e]"]
  show ?thesis by auto
next
  case (poster_acquire i w)
  have "snd (try_acquire w (store s) i) = store s \<or>
       (\<exists>d d'. store s i = Some d \<and> snd (try_acquire w (store s) i) = (store s)(i \<mapsto> d') \<and>
          lock_fields_iff_posting d')"
    using acquire_result [of w "store s" i] by (auto simp: lock_fields_iff_posting_def)
  with inv_poster [OF assms(2) poster_acquire(2)] poster_acquire(1) show ?thesis by simp
next
  case (poster_release_success i w lock_token post_name)
  have "snd (try_release_success w (store s) i lock_token post_name) = store s \<or>
       (\<exists>d d'. store s i = Some d \<and>
          snd (try_release_success w (store s) i lock_token post_name) = (store s)(i \<mapsto> d') \<and>
          lock_fields_iff_posting d')"
    using release_success_result [of w "store s" i lock_token post_name]
    by (auto simp: lock_fields_iff_posting_def)
  with inv_poster [OF assms(2) poster_release_success(2)] poster_release_success(1)
  show ?thesis by simp
next
  case (poster_release_failure i w lock_token reason)
  have "snd (try_release_failure w (store s) i lock_token reason) = store s \<or>
       (\<exists>d d'. store s i = Some d \<and>
          snd (try_release_failure w (store s) i lock_token reason) = (store s)(i \<mapsto> d') \<and>
          lock_fields_iff_posting d')"
    using release_failure_result [of w "store s" i lock_token reason]
    by (auto simp: lock_fields_iff_posting_def)
  with inv_poster [OF assms(2) poster_release_failure(2)] poster_release_failure(1)
  show ?thesis by simp
qed

lemma reachable_inv: "reachable s \<Longrightarrow> pipeline_inv s"
proof (induction rule: reachable.induct)
  case reachable_init
  show ?case by (simp add: pipeline_inv_def init_def)
next
  case (reachable_step s s')
  then show ?case using step_preserves_inv by blast
qed

section \<open>The lock fields and the terminal states\<close>

text \<open>An example run: an upload is claimed, captioned, queued and published; the
  Publisher takes the lock and releases it with success.\<close>

lemma demo_store_claimed:
  "store demo_claimed =
     [''a'' \<mapsto> [''doc_id'' \<mapsto> Str ''a'', ''bucket'' \<mapsto> Str ''bkt'', ''filename'' \<mapsto> Str ''cake.png'',
               ''status'' \<mapsto> Str ''RECEIVED'', ''created_at'' \<mapsto> Time 1001]]"
  by (simp add: demo_claimed_def demo_world_def init_def claim_txn_def update_fields_def)

lemma demo_store_queued:
  "store demo_queued ''a'' =
     Some [''doc_id'' \<mapsto> Str ''a'', ''bucket'' \<mapsto> Str ''bkt'', ''filename'' \<mapsto> Str ''cake.png'',
           ''created_at'' \<mapsto> Time 1001, ''draft'' \<mapsto> Str ''Warm crusty loaf'',
           ''image_url'' \<mapsto> Str ''https://u'', ''signed_url_expires'' \<mapsto> Time 4600,
           ''status'' \<mapsto> Str ''QUEUED'', ''updated_at'' \<mapsto> Time 1001]"
  by (auto simp: demo_queued_def demo_generating_def demo_store_claimed demo_world_def
        update_status_def transact_def update_fields_def addressable_def)

lemma demo_store_posting: "store demo_posting ''a'' = Some demo_doc_posting"
  by (auto simp: demo_posting_def demo_published_def demo_store_queued demo_world_def
        try_acquire_def acquire_txn_def transact_def Let_def TERMINAL_STATUSES_def
        update_fields_def demo_doc_posting_def)

lemma demo_store_posted: "store demo_posted ''a'' = Some demo_doc_posted"
  by (auto simp: demo_posted_def demo_store_posting demo_doc_posting_def demo_world_def
        try_release_success_def release_success_txn_def transact_def update_fields_def
        demo_doc_posted_def)

lemma demo_reachable_published: "reachable demo_published"
proof -
  have "step init demo_claimed"
    unfolding demo_claimed_def
    by (rule upload_claim [where w = demo_world and bucket = "''bkt''" and filename = "''cake.png''"])
       (simp add: demo_world_def init_def claim_document_def claim_txn_def transact_def
          addressable_def)
  with reachable_init have r1: "reachable demo_claimed" by (rule reachable_step)
  have "step demo_claimed demo_generating"
    unfolding demo_generating_def
    by (rule upload_generating) (simp add: demo_claimed_def)
  with r1 have r2: "reachable demo_generating" by (rule reachable_step)
  have "step demo_generating demo_queued"
    unfolding demo_queued_def
    by (rule upload_queued) (simp_all add: demo_generating_def)
  with r2 have r3: "reachable demo_queued" by (rule reachable_step)
  have "step demo_queued demo_published"
    unfolding demo_published_def
    by (rule upload_published) (simp add: demo_queued_def)
  with r3 show ?thesis by (rule reachable_step)
qed

lemma demo_reachable_posting: "reachable demo_posting"
proof -
  have "step demo_published demo_posting"
    unfolding demo_posting_def
    by (rule poster_acquire) (simp add: demo_published_def)
  with demo_reachable_published show ?thesis by (rule reachable_step)
qed

lemma demo_reachable_posted: "reachable demo_posted"
proof -
  have "step demo_posting demo_posted"
    unfolding demo_posted_def
    by (rule poster_release_success) (simp add: demo_posting_def demo_published_def)
  with demo_reachable_posting show ?thesis by (rule reachable_step)
qed

text \<open>
  C5. In every reachable state of the pipeline, a record has a \<open>lock_token\<close> exactly
  when its status is \<open>POSTING\<close>, and likewise a \<open>locked_at\<close>. A lock acquisition
  that returns either leaves the store alone or writes status \<open>POSTING\<close> together
  with both fields; a release that returns either leaves the store alone or writes its
  terminal status and deletes both fields.
\<close>

theorem lock_fields_present_iff_posting:
  "reachable s \<and> store s i = Some d \<longrightarrow>
   ((d ''lock_token'' \<noteq> None) = (d ''status'' = Some (Str ''POSTING''))) \<and>
   ((d ''locked_at'' \<noteq> None) = (d ''status'' = Some (Str ''POSTING''))) \<and>
   (\<forall>w r st'. acquire_posting_lock w (store s) i = Inr (r, st') \<longrightarrow>
        st' = store s \<or>
        st' = (store s)(i \<mapsto> d(''status'' \<mapsto> Str ''POSTING'', ''lock_token'' \<mapsto> Str (uuid4 w),
                                ''locked_at'' \<mapsto> Time (utcnow w),
                                ''updated_at'' \<mapsto> Time (server_timestamp w)))) \<and>
   (\<forall>w t pn r st'. release_lock_success w (store s) i t pn = Inr (r, st') \<longrightarrow>
        st' = store s \<or>
        (\<exists>d'. st' = (store s)(i \<mapsto> d') \<and>
           d' ''status'' = Some (Str ''POSTED'') \<and> d' ''lock_token'' = None \<and>
           d' ''locked_at'' = None)) \<and>
   (\<forall>w t rs r st'. release_lock_failure w (store s) i t rs = Inr (r, st') \<longrightarrow>
        st' = store s \<or>
        (\<exists>d'. st' = (store s)(i \<mapsto> d') \<and>
           d' ''status'' = Some (Str ''FAILED'') \<and> d' ''lock_token'' = None \<and>
           d' ''locked_at'' = None))"
proof (intro impI conjI allI)
  assume a: "reachable s \<and> store s i = Some d"
  then have "lock_fields_iff_posting d"
    using reachable_inv [of s] by (auto simp: pipeline_inv_def)
  then show "(d ''lock_token'' \<noteq> None) = (d ''status'' = Some (Str ''POSTING''))"
    and "(d ''locked_at'' \<noteq> None) = (d ''status'' = Some (Str ''POSTING''))"
    by (simp_all add: lock_fields_iff_posting_def)
  show "st' = store s \<or>
        st' = (store s)(i \<mapsto> d(''status'' \<mapsto> Str ''POSTING'', ''lock_token'' \<mapsto> Str (uuid4 w),
                                ''locked_at'' \<mapsto> Time (utcnow w),
                                ''updated_at'' \<mapsto> Time (server_timestamp w)))"
    if "acquire_posting_lock w (store s) i = Inr (r, st')" for w r st'
    using a that
    by (cases "firestore w")
       (auto simp: acquire_posting_lock_def try_acquire_def acquire_txn_def transact_def
          update_fields_def Let_def split: option.splits fval.splits if_splits)
  show "st' = store s \<or>
        (\<exists>d'. st' = (store s)(i \<mapsto> d') \<and>
           d' ''status'' = Some (Str ''POSTED'') \<and> d' ''lock_token'' = None \<and>
           d' ''locked_at'' = None)"
    if "release_lock_success w (store s) i t pn = Inr (r, st')" for w t pn r st'
    using that release_success_result [of w "store s" i t pn]
    by (auto simp: release_lock_success_def split: option.splits if_splits)
  show "st' = store s \<or>
        (\<exists>d'. st' = (store s)(i \<mapsto> d') \<and>
           d' ''status'' = Some (Str ''FAILED'') \<and> d' ''lock_token'' = None \<and>
           d' ''locked_at'' = None)"
    if "release_lock_failure w (store s) i t rs = Inr (r, st')" for w t rs r st'
    using that release_failure_result [of w "store s" i t rs]
    by (auto simp: release_lock_failure_def split: option.splits if_splits)
qed

theorem lock_fields_present_iff_posting_witness:
  "reachable demo_posting \<and> store demo_posting ''a'' = Some demo_doc_posting \<and>
   demo_doc_posting ''status'' = Some (Str ''POSTING'') \<and>
   demo_doc_posting ''lock_token'' \<noteq> None \<and> demo_doc_posting ''locked_at'' \<noteq> None \<and>
   reachable demo_posted \<and> store demo_posted ''a'' = Some demo_doc_posted \<and>
   demo_doc_posted ''status'' = Some (Str ''POSTED'') \<and>
   demo_doc_posted ''lock_token'' = None \<and> demo_doc_posted ''locked_at'' = None"
  using lock_fields_present_iff_posting [of demo_posting "''a''" demo_doc_posting]
    lock_fields_present_iff_posting [of demo_posted "''a''" demo_doc_posted]
    demo_reachable_posting demo_store_posting demo_reachable_posted demo_store_posted
  by (simp add: demo_doc_posting_def demo_doc_posted_def)

text \<open>A terminal record survives every step.\<close>

lemma terminal_ops:
  assumes "st i = Some d" and "d ''lock_token'' = None"
    and "d ''status'' = Some (Str ''POSTED'') \<or> d ''status'' = Some (Str ''FAILED'')"
  shows "try_acquire w st i = (None, st)"
    and "try_release_success w st i t pn = (False, st)"
    and "try_release_failure w st i t r = (False, st)"
  using assms
  by (cases "firestore w";
      auto simp: try_acquire_def acquire_txn_def transact_def Let_def TERMINAL_STATUSES_def
        try_release_success_def try_release_failure_def release_success_txn_def
        release_failure_txn_def)+

lemma step_keeps_terminal:
  assumes inv: "pipeline_inv s" and d: "store s i = Some d"
    and t: "d ''status'' = Some (Str ''POSTED'') \<or> d ''status'' = Some (Str ''FAILED'')"
    and st: "step s s'"
  shows "store s' i = Some d"
proof -
  from inv d have l: "lock_fields_iff_posting d" by (auto simp: pipeline_inv_def)
  with t have nl: "d ''lock_token'' = None" by (auto simp: lock_fields_iff_posting_def)
  from t have nb: "\<not> before_handoff d" by (auto simp: before_handoff_def)
  have composer: "store s' i = Some d"
    if "s' = s\<lparr>store := update_status w (store s) j status extra, phase := (phase s)(j := p')\<rparr>"
      and "phase s j = Claimed \<or> phase s j = InTry \<or> phase s j = Stored" for w j status extra p'
  proof -
    from inv that(2) obtain dj where "store s j = Some dj" "before_handoff dj"
      by (auto simp: pipeline_inv_def)
    with d nb have "j \<noteq> i" by auto
    with that(1) d update_status_result [of w "store s" j status extra] show ?thesis
      by auto
  qed
  from st show ?thesis
  proof (cases rule: step.cases)
    case (upload_claim w j bucket filename st')
    with claim_document_result [OF upload_claim(2)] d show ?thesis by auto
  next
    case (upload_duplicate w j bucket filename st')
    with claim_document_result [OF upload_duplicate(2)] d show ?thesis by auto
  next
    case (upload_generating j w)
    then show ?thesis using composer by blast
  next
    case (upload_blocked j w)
    then show ?thesis using composer by blast
  next
    case (upload_queued j caption w signed_url expires)
    then show ?thesis using composer by blast
  next
    case (upload_published j)
    with d show ?thesis by simp
  next
    case (upload_exception j w e)
    then show ?thesis using composer by blast
  next
    case (poster_acquire j w)
    show ?thesis
    proof (cases "j = i")
      case True
      with poster_acquire d terminal_ops(1) [where st = "store s", OF d nl t] show ?thesis by simp
    next
      case False
      with poster_acquire d acquire_result [of w "store s" j] show ?thesis by auto
    qed
  next
    case (poster_release_success j w lock_token post_name)
    show ?thesis
    proof (cases "j = i")
      case True
      with poster_release_success d terminal_ops(2) [where st = "store s", OF d nl t] show ?thesis by simp
    next
      case False
      with poster_release_success d release_success_result [of w "store s" j lock_token post_name]
      show ?thesis by auto
    qed
  next
    case (poster_release_failure j w lock_token reason)
    show ?thesis
    proof (cases "j = i")
      case True
      with poster_release_failure d terminal_ops(3) [where st = "store s", OF d nl t] show ?thesis by simp
    next
      case False
      with poster_release_failure d release_failure_result [of w "store s" j lock_token reason]
      show ?thesis by auto
    qed
  qed
qed

lemma steps_keep_terminal:
  assumes "rtranclp step s s'" and "reachable s" and "store s i = Some d"
    and "d ''status'' = Some (Str ''POSTED'') \<or> d ''status'' = Some (Str ''FAILED'')"
  shows "reachable s' \<and> store s' i = Some d"
  using assms
proof (induction rule: rtranclp_induct)
  case base
  then show ?case by simp
next
  case (step y z)
  then have y: "reachable y" "store y i = Some d" by simp_all
  from y(1) step.hyps(2) have "reachable z" by (rule reachable_step)
  moreover have "store z i = Some d"
    using step_keeps_terminal [OF reachable_inv [OF y(1)] y(2) step.prems(3) step.hyps(2)] .
  ultimately show ?case by simp
qed

text \<open>
  C4. A record of a reachable state whose status is \<open>POSTED\<close> or \<open>FAILED\<close> stores
  no \<open>lock_token\<close>; with the client at hand, the lock acquisition returns \<open>None\<close>
  on it and both releases return false, whatever token they present, with the store
  unchanged; and after any number of further steps of either stage the record is still
  the same.
\<close>

theorem terminal_record_is_final:
  assumes "reachable s" and "store s i = Some d"
    and "d ''status'' = Some (Str ''POSTED'') \<or> d ''status'' = Some (Str ''FAILED'')"
  shows "d ''lock_token'' = None \<and>
         (get_db w = None \<longrightarrow>
            acquire_posting_lock w (store s) i = Inr (None, store s) \<and>
            release_lock_success w (store s) i t pn = Inr (False, store s) \<and>
            release_lock_failure w (store s) i t r = Inr (False, store s)) \<and>
         (\<forall>s'. rtranclp step s s' \<longrightarrow> store s' i = Some d)"
proof -
  from assms(1,2) have inv: "lock_fields_iff_posting d" "addressable i"
    using reachable_inv [of s] by (auto simp: pipeline_inv_def)
  with assms(3) have nl: "d ''lock_token'' = None" by (auto simp: lock_fields_iff_posting_def)
  have ops: "acquire_posting_lock w (store s) i = Inr (None, store s) \<and>
            release_lock_success w (store s) i t pn = Inr (False, store s) \<and>
            release_lock_failure w (store s) i t r = Inr (False, store s)"
    if "get_db w = None"
    using that inv(2) terminal_ops [where st = "store s", OF assms(2) nl assms(3)]
    by (simp add: acquire_posting_lock_def release_lock_success_def release_lock_failure_def)
  from ops nl steps_keep_terminal [OF _ assms] show ?thesis by blast
qed

theorem terminal_record_is_final_witness:
  "reachable demo_posted \<and> store demo_posted ''a'' = Some demo_doc_posted \<and>
   demo_doc_posted ''status'' = Some (Str ''POSTED'') \<and>
   demo_doc_posted ''lock_token'' = None \<and>
   acquire_posting_lock demo_world (store demo_posted) ''a'' = Inr (None, store demo_posted) \<and>
   release_lock_success demo_world (store demo_posted) ''a'' ''tok-1'' ''posts/2''
     = Inr (False, store demo_posted) \<and>
   release_lock_failure demo_world (store demo_posted) ''a'' ''tok-1'' ''late''
     = Inr (False, store demo_posted)"
proof -
  have st: "demo_doc_posted ''status'' = Some (Str ''POSTED'') \<or>
            demo_doc_posted ''status'' = Some (Str ''FAILED'')"
    by (simp add: demo_doc_posted_def)
  have g: "get_db demo_world = None"
    by (simp add: demo_world_def)
  from terminal_record_is_final [OF demo_reachable_posted demo_store_posted st,
      of demo_world "''tok-1''" "''posts/2''" "''late''"]
    demo_reachable_posted demo_store_posted st g
  show ?thesis by (auto simp: demo_doc_posted_def)
qed

end
